theory Spec2Isabelle
  imports Main "HOL-Library.Sublist"
begin

section \<open>Python values\<close>

text \<open>
  A Python \<open>str\<close> is a sequence of Unicode code points.  A code point is a natural
  number, so \<open>len\<close>, slicing and indexing count what Python counts.  ASCII literals
  of the source are written \<open>asc ''...''\<close>; the few non-ASCII characters the source
  mentions are named constants.
\<close>

type_synonym ustr = "nat list"

definition asc :: "string \<Rightarrow> ustr" where
  "asc s = map of_char s"

text \<open>
  The code points of the ASCII characters, as rewrite rules: a literal is evaluated by
  looking its characters up here.
\<close>

lemma ascii_codes [simp]:
  "of_char (CHR 0x00) = (0::nat)"
  "of_char (CHR 0x01) = (1::nat)"
  "of_char (CHR 0x02) = (2::nat)"
  "of_char (CHR 0x03) = (3::nat)"
  "of_char (CHR 0x04) = (4::nat)"
  "of_char (CHR 0x05) = (5::nat)"
  "of_char (CHR 0x06) = (6::nat)"
  "of_char (CHR 0x07) = (7::nat)"
  "of_char (CHR 0x08) = (8::nat)"
  "of_char (CHR 0x09) = (9::nat)"
  "of_char (CHR 0x0A) = (10::nat)"
  "of_char (CHR 0x0B) = (11::nat)"
  "of_char (CHR 0x0C) = (12::nat)"
  "of_char (CHR 0x0D) = (13::nat)"
  "of_char (CHR 0x0E) = (14::nat)"
  "of_char (CHR 0x0F) = (15::nat)"
  "of_char (CHR 0x10) = (16::nat)"
  "of_char (CHR 0x11) = (17::nat)"
  "of_char (CHR 0x12) = (18::nat)"
  "of_char (CHR 0x13) = (19::nat)"
  "of_char (CHR 0x14) = (20::nat)"
  "of_char (CHR 0x15) = (21::nat)"
  "of_char (CHR 0x16) = (22::nat)"
  "of_char (CHR 0x17) = (23::nat)"
  "of_char (CHR 0x18) = (24::nat)"
  "of_char (CHR 0x19) = (25::nat)"
  "of_char (CHR 0x1A) = (26::nat)"
  "of_char (CHR 0x1B) = (27::nat)"
  "of_char (CHR 0x1C) = (28::nat)"
  "of_char (CHR 0x1D) = (29::nat)"
  "of_char (CHR 0x1E) = (30::nat)"
  "of_char (CHR 0x1F) = (31::nat)"
  "of_char (CHR 0x20) = (32::nat)"
  "of_char (CHR 0x21) = (33::nat)"
  "of_char (CHR 0x22) = (34::nat)"
  "of_char (CHR 0x23) = (35::nat)"
  "of_char (CHR 0x24) = (36::nat)"
  "of_char (CHR 0x25) = (37::nat)"
  "of_char (CHR 0x26) = (38::nat)"
  "of_char (CHR 0x27) = (39::nat)"
  "of_char (CHR 0x28) = (40::nat)"
  "of_char (CHR 0x29) = (41::nat)"
  "of_char (CHR 0x2A) = (42::nat)"
  "of_char (CHR 0x2B) = (43::nat)"
  "of_char (CHR 0x2C) = (44::nat)"
  "of_char (CHR 0x2D) = (45::nat)"
  "of_char (CHR 0x2E) = (46::nat)"
  "of_char (CHR 0x2F) = (47::nat)"
  "of_char (CHR 0x30) = (48::nat)"
  "of_char (CHR 0x31) = (49::nat)"
  "of_char (CHR 0x32) = (50::nat)"
  "of_char (CHR 0x33) = (51::nat)"
  "of_char (CHR 0x34) = (52::nat)"
  "of_char (CHR 0x35) = (53::nat)"
  "of_char (CHR 0x36) = (54::nat)"
  "of_char (CHR 0x37) = (55::nat)"
  "of_char (CHR 0x38) = (56::nat)"
  "of_char (CHR 0x39) = (57::nat)"
  "of_char (CHR 0x3A) = (58::nat)"
  "of_char (CHR 0x3B) = (59::nat)"
  "of_char (CHR 0x3C) = (60::nat)"
  "of_char (CHR 0x3D) = (61::nat)"
  "of_char (CHR 0x3E) = (62::nat)"
  "of_char (CHR 0x3F) = (63::nat)"
  "of_char (CHR 0x40) = (64::nat)"
  "of_char (CHR 0x41) = (65::nat)"
  "of_char (CHR 0x42) = (66::nat)"
  "of_char (CHR 0x43) = (67::nat)"
  "of_char (CHR 0x44) = (68::nat)"
  "of_char (CHR 0x45) = (69::nat)"
  "of_char (CHR 0x46) = (70::nat)"
  "of_char (CHR 0x47) = (71::nat)"
  "of_char (CHR 0x48) = (72::nat)"
  "of_char (CHR 0x49) = (73::nat)"
  "of_char (CHR 0x4A) = (74::nat)"
  "of_char (CHR 0x4B) = (75::nat)"
  "of_char (CHR 0x4C) = (76::nat)"
  "of_char (CHR 0x4D) = (77::nat)"
  "of_char (CHR 0x4E) = (78::nat)"
  "of_char (CHR 0x4F) = (79::nat)"
  "of_char (CHR 0x50) = (80::nat)"
  "of_char (CHR 0x51) = (81::nat)"
  "of_char (CHR 0x52) = (82::nat)"
  "of_char (CHR 0x53) = (83::nat)"
  "of_char (CHR 0x54) = (84::nat)"
  "of_char (CHR 0x55) = (85::nat)"
  "of_char (CHR 0x56) = (86::nat)"
  "of_char (CHR 0x57) = (87::nat)"
  "of_char (CHR 0x58) = (88::nat)"
  "of_char (CHR 0x59) = (89::nat)"
  "of_char (CHR 0x5A) = (90::nat)"
  "of_char (CHR 0x5B) = (91::nat)"
  "of_char (CHR 0x5C) = (92::nat)"
  "of_char (CHR 0x5D) = (93::nat)"
  "of_char (CHR 0x5E) = (94::nat)"
  "of_char (CHR 0x5F) = (95::nat)"
  "of_char (CHR 0x60) = (96::nat)"
  "of_char (CHR 0x61) = (97::nat)"
  "of_char (CHR 0x62) = (98::nat)"
  "of_char (CHR 0x63) = (99::nat)"
  "of_char (CHR 0x64) = (100::nat)"
  "of_char (CHR 0x65) = (101::nat)"
  "of_char (CHR 0x66) = (102::nat)"
  "of_char (CHR 0x67) = (103::nat)"
  "of_char (CHR 0x68) = (104::nat)"
  "of_char (CHR 0x69) = (105::nat)"
  "of_char (CHR 0x6A) = (106::nat)"
  "of_char (CHR 0x6B) = (107::nat)"
  "of_char (CHR 0x6C) = (108::nat)"
  "of_char (CHR 0x6D) = (109::nat)"
  "of_char (CHR 0x6E) = (110::nat)"
  "of_char (CHR 0x6F) = (111::nat)"
  "of_char (CHR 0x70) = (112::nat)"
  "of_char (CHR 0x71) = (113::nat)"
  "of_char (CHR 0x72) = (114::nat)"
  "of_char (CHR 0x73) = (115::nat)"
  "of_char (CHR 0x74) = (116::nat)"
  "of_char (CHR 0x75) = (117::nat)"
  "of_char (CHR 0x76) = (118::nat)"
  "of_char (CHR 0x77) = (119::nat)"
  "of_char (CHR 0x78) = (120::nat)"
  "of_char (CHR 0x79) = (121::nat)"
  "of_char (CHR 0x7A) = (122::nat)"
  "of_char (CHR 0x7B) = (123::nat)"
  "of_char (CHR 0x7C) = (124::nat)"
  "of_char (CHR 0x7D) = (125::nat)"
  "of_char (CHR 0x7E) = (126::nat)"
  "of_char (CHR 0x7F) = (127::nat)"
  by simp_all

declare of_char_Char [simp del]

text \<open>The exceptions that the modelled functions can raise.\<close>

datatype py_error =
  ValueError | IndexError | AttributeError | TypeError | UnboundLocalError | JSONDecodeError


section \<open>Python strings\<close>

text \<open>
  What Python's Unicode database decides for code points outside ASCII is a parameter of
  the model: \<open>str.lower\<close> of a string that has a non-ASCII code point, and the classes
  \<open>\w\<close> and \<open>\d\<close> of the \<open>re\<close> module on non-ASCII code points.  On ASCII the
  functions below are the ones Python computes.
\<close>

record ucd =
  lower_na :: "ustr \<Rightarrow> ustr"
  word_na :: "nat \<Rightarrow> bool"
  digit_na :: "nat \<Rightarrow> bool"

named_theorems py_defs "definitions unfolded when a model is evaluated on a concrete input"

declare asc_def [py_defs] Let_def [py_defs]

text \<open>\<open>str.isspace\<close> of one code point; the class \<open>\s\<close> of \<open>re\<close> is the same set.\<close>

definition is_space :: "nat \<Rightarrow> bool" where
  "is_space c \<longleftrightarrow>
     (9 \<le> c \<and> c \<le> 13) \<or> (28 \<le> c \<and> c \<le> 32) \<or> c = 133 \<or> c = 160 \<or> c = 5760
     \<or> (8192 \<le> c \<and> c \<le> 8202) \<or> c = 8232 \<or> c = 8233 \<or> c = 8239 \<or> c = 8287
     \<or> c = 12288"

definition is_ascii_upper :: "nat \<Rightarrow> bool" where
  "is_ascii_upper c \<longleftrightarrow> 65 \<le> c \<and> c \<le> 90"

definition is_ascii_lower :: "nat \<Rightarrow> bool" where
  "is_ascii_lower c \<longleftrightarrow> 97 \<le> c \<and> c \<le> 122"

definition is_ascii_digit :: "nat \<Rightarrow> bool" where
  "is_ascii_digit c \<longleftrightarrow> 48 \<le> c \<and> c \<le> 57"

definition is_digit :: "ucd \<Rightarrow> nat \<Rightarrow> bool" where
  "is_digit U c = (if c < 128 then is_ascii_digit c else digit_na U c)"

definition is_word :: "ucd \<Rightarrow> nat \<Rightarrow> bool" where
  "is_word U c =
     (if c < 128 then is_ascii_digit c \<or> is_ascii_upper c \<or> is_ascii_lower c \<or> c = 95
      else word_na U c)"

definition ascii_lower :: "nat \<Rightarrow> nat" where
  "ascii_lower c = (if is_ascii_upper c then c + 32 else c)"

definition py_lower :: "ucd \<Rightarrow> ustr \<Rightarrow> ustr" where
  "py_lower U s = (if list_all (\<lambda>c. c < 128) s then map ascii_lower s else lower_na U s)"

text \<open>
  The database for texts whose non-ASCII code points are dashes, bullets and other
  punctuation: they have no case and are neither word characters nor digits.  The
  worked examples use it.
\<close>

definition ucd_caseless :: ucd where
  "ucd_caseless =
     \<lparr>lower_na = map ascii_lower, word_na = (\<lambda>c. False), digit_na = (\<lambda>c. False)\<rparr>"

declare ucd_caseless_def [py_defs]

definition py_lstrip :: "ustr \<Rightarrow> ustr" where
  "py_lstrip s = dropWhile is_space s"

definition py_rstrip :: "ustr \<Rightarrow> ustr" where
  "py_rstrip s = rev (dropWhile is_space (rev s))"

definition py_strip :: "ustr \<Rightarrow> ustr" where
  "py_strip s = py_rstrip (py_lstrip s)"

text \<open>\<open>sub in s\<close> on strings.\<close>

fun contains :: "ustr \<Rightarrow> ustr \<Rightarrow> bool" where
  "contains sub [] = (sub = [])"
| "contains sub (x # xs) = (prefix sub (x # xs) \<or> contains sub xs)"

definition startswith :: "ustr \<Rightarrow> ustr \<Rightarrow> bool" where
  "startswith s p = prefix p s"

definition endswith :: "ustr \<Rightarrow> ustr \<Rightarrow> bool" where
  "endswith s p = suffix p s"

text \<open>\<open>s.replace(old, new)\<close> for a non-empty \<open>old\<close>, as every call of the source has it.\<close>

fun py_replace :: "ustr \<Rightarrow> ustr \<Rightarrow> ustr \<Rightarrow> ustr" where
  "py_replace old new [] = []"
| "py_replace old new (x # xs) =
     (if old \<noteq> [] \<and> prefix old (x # xs)
      then new @ py_replace old new (drop (length old) (x # xs))
      else x # py_replace old new xs)"

text \<open>\<open>sep.join(parts)\<close>.\<close>

fun py_join :: "ustr \<Rightarrow> ustr list \<Rightarrow> ustr" where
  "py_join sep [] = []"
| "py_join sep [p] = p"
| "py_join sep (p # q # ps) = p @ sep @ py_join sep (q # ps)"

declare is_space_def [py_defs] is_ascii_upper_def [py_defs] is_ascii_lower_def [py_defs]
  is_ascii_digit_def [py_defs] is_digit_def [py_defs] is_word_def [py_defs]
  ascii_lower_def [py_defs] py_lower_def [py_defs] py_lstrip_def [py_defs]
  py_rstrip_def [py_defs] py_strip_def [py_defs] startswith_def [py_defs]
  endswith_def [py_defs] suffix_to_prefix [py_defs]

section \<open>Regular expressions\<close>

text \<open>
  The patterns of the source are written as syntax trees and run by a backtracking
  matcher that tries alternatives in the order of Python's \<open>re\<close>: the left branch of
  \<open>|\<close> first, one more iteration before the rest for a greedy repetition and the rest
  first for a lazy one.  The first successful path is the match.

  Under \<open>re.IGNORECASE\<close> a pattern character matches the code points with the same
  lower case, and \<open>i\<close>, \<open>s\<close>, \<open>k\<close> also match U+0130, U+0131, U+017F and U+212A.
  Every letter in the patterns of the source is ASCII, so \<open>ci_fold\<close> is all that is
  needed.
\<close>

definition ci_fold :: "nat \<Rightarrow> nat" where
  "ci_fold c =
     (if is_ascii_upper c then c + 32
      else if c = 304 \<or> c = 305 then 105
      else if c = 383 then 115
      else if c = 8490 then 107
      else c)"

datatype cls = CChar nat | CRange nat nat | CSpace | CDigit | CWord

fun cls_has :: "ucd \<Rightarrow> bool \<Rightarrow> cls \<Rightarrow> nat \<Rightarrow> bool" where
  "cls_has U ic (CChar a) x = (if ic then ci_fold x = ci_fold a else x = a)"
| "cls_has U ic (CRange a b) x =
     ((a \<le> x \<and> x \<le> b)
      \<or> (ic \<and> (let y = ci_fold x in
                 (a \<le> y \<and> y \<le> b)
                 \<or> (is_ascii_lower y \<and> a \<le> y - 32 \<and> y - 32 \<le> b))))"
| "cls_has U ic CSpace x = is_space x"
| "cls_has U ic CDigit x = is_digit U x"
| "cls_has U ic CWord x = is_word U x"

datatype rx =
    REmpty
  | RChar nat
  | RSet bool "cls list"
  | RAny
  | RSeq rx rx
  | RAlt rx rx
  | RRep nat "nat option" bool rx
  | RGroup nat rx
  | RBackref nat
  | RBol
  | REol
  | RWordB
  | RNegLook rx

record rflags =
  icase :: bool
  dotall :: bool

text \<open>The matcher works on a stack of what is still to be matched.\<close>

datatype item = IRx rx | IMark nat | IGEnd nat nat

type_synonym caps = "(nat \<times> nat \<times> nat) list"

fun sz :: "rx \<Rightarrow> nat" where
  "sz (RSeq a b) = Suc (sz a + sz b)"
| "sz (RAlt a b) = Suc (sz a + sz b)"
| "sz (RRep lo hi g r) = Suc lo * Suc (sz r)"
| "sz (RGroup n r) = Suc (Suc (sz r))"
| "sz (RNegLook r) = Suc (sz r)"
| "sz _ = 1"

fun wt :: "nat \<Rightarrow> item list \<Rightarrow> nat" where
  "wt pos [] = 0"
| "wt pos (IRx r # k) = sz r + wt pos k"
| "wt pos (IMark p # k) = (if p = pos then 0 else Suc (wt pos k))"
| "wt pos (IGEnd n b # k) = Suc (wt pos k)"

fun dec :: "nat option \<Rightarrow> nat option" where
  "dec None = None"
| "dec (Some n) = Some (n - 1)"

fun ci_prefix :: "bool \<Rightarrow> ustr \<Rightarrow> ustr \<Rightarrow> bool" where
  "ci_prefix ic [] ys = True"
| "ci_prefix ic (x # xs) [] = False"
| "ci_prefix ic (x # xs) (y # ys) =
     ((if ic then ci_fold x = ci_fold y else x = y) \<and> ci_prefix ic xs ys)"

lemma ci_prefix_nonempty: "ci_prefix ic t r \<Longrightarrow> t \<noteq> [] \<Longrightarrow> r \<noteq> []"
  by (cases t) auto

text \<open>\<open>\b\<close>: exactly one of the characters around the position is a word character.\<close>

definition at_boundary :: "ucd \<Rightarrow> nat option \<Rightarrow> ustr \<Rightarrow> bool" where
  "at_boundary U prev rest =
     ((case prev of None \<Rightarrow> False | Some p \<Rightarrow> is_word U p)
      \<noteq> (case rest of [] \<Rightarrow> False | x # _ \<Rightarrow> is_word U x))"

text \<open>
  \<open>rx_run U f s k pos prev rest cs\<close> matches the stack \<open>k\<close> against \<open>rest\<close>, the part
  of the subject \<open>s\<close> from position \<open>pos\<close> on; \<open>prev\<close> is the character before \<open>pos\<close>
  and \<open>cs\<close> the groups captured so far (the latest first).  It returns the end
  position and the groups.  \<open>IMark p\<close> rejects an iteration of a repetition that
  consumed nothing; \<open>$\<close> also matches before a final newline.
\<close>

function (sequential) rx_run ::
  "ucd \<Rightarrow> rflags \<Rightarrow> ustr \<Rightarrow> item list \<Rightarrow> nat \<Rightarrow> nat option \<Rightarrow> ustr \<Rightarrow> caps
     \<Rightarrow> (nat \<times> caps) option" where
  "rx_run U f s [] pos prev rest cs = Some (pos, cs)"
| "rx_run U f s (IMark p # k) pos prev rest cs =
     (if p = pos then None else rx_run U f s k pos prev rest cs)"
| "rx_run U f s (IGEnd n b # k) pos prev rest cs =
     rx_run U f s k pos prev rest ((n, b, pos) # cs)"
| "rx_run U f s (IRx REmpty # k) pos prev rest cs = rx_run U f s k pos prev rest cs"
| "rx_run U f s (IRx (RChar c) # k) pos prev rest cs =
     (case rest of [] \<Rightarrow> None
      | x # xs \<Rightarrow> if cls_has U (icase f) (CChar c) x
                  then rx_run U f s k (Suc pos) (Some x) xs cs else None)"
| "rx_run U f s (IRx (RSet neg items) # k) pos prev rest cs =
     (case rest of [] \<Rightarrow> None
      | x # xs \<Rightarrow> if list_ex (\<lambda>i. cls_has U (icase f) i x) items \<noteq> neg
                  then rx_run U f s k (Suc pos) (Some x) xs cs else None)"
| "rx_run U f s (IRx RAny # k) pos prev rest cs =
     (case rest of [] \<Rightarrow> None
      | x # xs \<Rightarrow> if x \<noteq> 10 \<or> dotall f
                  then rx_run U f s k (Suc pos) (Some x) xs cs else None)"
| "rx_run U f s (IRx (RSeq a b) # k) pos prev rest cs =
     rx_run U f s (IRx a # IRx b # k) pos prev rest cs"
| "rx_run U f s (IRx (RAlt a b) # k) pos prev rest cs =
     (case rx_run U f s (IRx a # k) pos prev rest cs of
        Some r \<Rightarrow> Some r
      | None \<Rightarrow> rx_run U f s (IRx b # k) pos prev rest cs)"
| "rx_run U f s (IRx (RRep lo hi g r) # k) pos prev rest cs =
     (if 0 < lo
      then rx_run U f s (IRx r # IRx (RRep (lo - 1) (dec hi) g r) # k) pos prev rest cs
      else if hi = Some 0 then rx_run U f s k pos prev rest cs
      else if g then
        (case rx_run U f s (IRx r # IMark pos # IRx (RRep 0 (dec hi) g r) # k)
                pos prev rest cs of
           Some res \<Rightarrow> Some res
         | None \<Rightarrow> rx_run U f s k pos prev rest cs)
      else
        (case rx_run U f s k pos prev rest cs of
           Some res \<Rightarrow> Some res
         | None \<Rightarrow> rx_run U f s (IRx r # IMark pos # IRx (RRep 0 (dec hi) g r) # k)
                     pos prev rest cs))"
| "rx_run U f s (IRx (RGroup n r) # k) pos prev rest cs =
     rx_run U f s (IRx r # IGEnd n pos # k) pos prev rest cs"
| "rx_run U f s (IRx (RBackref n) # k) pos prev rest cs =
     (case map_of cs n of None \<Rightarrow> None
      | Some (b, e) \<Rightarrow>
          (let t = take (e - b) (drop b s) in
           if \<not> ci_prefix (icase f) t rest then None
           else if t = [] then rx_run U f s k pos prev rest cs
           else rx_run U f s k (pos + length t) (Some (last (take (length t) rest)))
                  (drop (length t) rest) cs))"
| "rx_run U f s (IRx RBol # k) pos prev rest cs =
     (if pos = 0 then rx_run U f s k pos prev rest cs else None)"
| "rx_run U f s (IRx REol # k) pos prev rest cs =
     (if rest = [] \<or> rest = [10] then rx_run U f s k pos prev rest cs else None)"
| "rx_run U f s (IRx RWordB # k) pos prev rest cs =
     (if at_boundary U prev rest then rx_run U f s k pos prev rest cs else None)"
| "rx_run U f s (IRx (RNegLook r) # k) pos prev rest cs =
     (if rx_run U f s [IRx r] pos prev rest cs = None
      then rx_run U f s k pos prev rest cs else None)"
  by pat_completeness auto
termination
  by (relation "inv_image (less_than <*lex*> less_than)
        (\<lambda>(U, f, s, k, pos, prev, rest, cs). (length rest, wt pos k))")
     (auto split: if_splits dest: ci_prefix_nonempty)

declare ci_fold_def [py_defs] at_boundary_def [py_defs]

subsection \<open>Writing patterns\<close>

definition rseq :: "rx list \<Rightarrow> rx" where
  "rseq rs = foldr RSeq rs REmpty"

definition ralt :: "rx list \<Rightarrow> rx" where
  "ralt rs = (case rs of [] \<Rightarrow> REmpty | _ \<Rightarrow> foldr RAlt (butlast rs) (last rs))"

definition rlit :: "ustr \<Rightarrow> rx" where
  "rlit s = rseq (map RChar s)"

definition rstr :: "string \<Rightarrow> rx" where
  "rstr s = rlit (asc s)"

definition star :: "rx \<Rightarrow> rx" where "star r = RRep 0 None True r"
definition plus :: "rx \<Rightarrow> rx" where "plus r = RRep 1 None True r"
definition opt :: "rx \<Rightarrow> rx" where "opt r = RRep 0 (Some 1) True r"
definition star_lazy :: "rx \<Rightarrow> rx" where "star_lazy r = RRep 0 None False r"
definition plus_lazy :: "rx \<Rightarrow> rx" where "plus_lazy r = RRep 1 None False r"

definition rspace :: rx where "rspace = RSet False [CSpace]"
definition rdigit :: rx where "rdigit = RSet False [CDigit]"
definition rword :: rx where "rword = RSet False [CWord]"

definition NOFLAGS :: rflags where "NOFLAGS = \<lparr>icase = False, dotall = False\<rparr>"
definition IGNORECASE :: rflags where "IGNORECASE = \<lparr>icase = True, dotall = False\<rparr>"
definition IGNORECASE_DOTALL :: rflags where
  "IGNORECASE_DOTALL = \<lparr>icase = True, dotall = True\<rparr>"

declare rseq_def [py_defs] ralt_def [py_defs] rlit_def [py_defs] rstr_def [py_defs]
  star_def [py_defs] plus_def [py_defs] opt_def [py_defs] star_lazy_def [py_defs]
  plus_lazy_def [py_defs] rspace_def [py_defs] rdigit_def [py_defs] rword_def [py_defs]
  NOFLAGS_def [py_defs] IGNORECASE_def [py_defs] IGNORECASE_DOTALL_def [py_defs]

subsection \<open>The functions of the \<open>re\<close> module\<close>

text \<open>A match object: start, end and the captured groups.\<close>

type_synonym mobj = "nat \<times> nat \<times> caps"

definition m_start :: "mobj \<Rightarrow> nat" where "m_start mo = fst mo"
definition m_end :: "mobj \<Rightarrow> nat" where "m_end mo = fst (snd mo)"

text \<open>\<open>m.group(n)\<close>; \<open>None\<close> when the group took no part in the match.\<close>

definition m_group :: "ustr \<Rightarrow> mobj \<Rightarrow> nat \<Rightarrow> ustr option" where
  "m_group s mo n =
     (if n = 0 then Some (take (m_end mo - m_start mo) (drop (m_start mo) s))
      else map_option (\<lambda>(b, e). take (e - b) (drop b s)) (map_of (snd (snd mo)) n))"

definition m_group_start :: "mobj \<Rightarrow> nat \<Rightarrow> nat option" where
  "m_group_start mo n = map_option fst (map_of (snd (snd mo)) n)"

definition re_match :: "ucd \<Rightarrow> rflags \<Rightarrow> rx \<Rightarrow> ustr \<Rightarrow> mobj option" where
  "re_match U f r s =
     map_option (\<lambda>(e, cs). (0, e, cs)) (rx_run U f s [IRx r] 0 None s [])"

text \<open>\<open>search\<close> tries the start positions from left to right.\<close>

fun search_from :: "ucd \<Rightarrow> rflags \<Rightarrow> rx \<Rightarrow> ustr \<Rightarrow> nat \<Rightarrow> nat option \<Rightarrow> ustr \<Rightarrow> mobj option" where
  "search_from U f r s pos prev [] =
     map_option (\<lambda>(e, cs). (pos, e, cs)) (rx_run U f s [IRx r] pos prev [] [])"
| "search_from U f r s pos prev (x # xs) =
     (case rx_run U f s [IRx r] pos prev (x # xs) [] of
        Some (e, cs) \<Rightarrow> Some (pos, e, cs)
      | None \<Rightarrow> search_from U f r s (Suc pos) (Some x) xs)"

definition re_search :: "ucd \<Rightarrow> rflags \<Rightarrow> rx \<Rightarrow> ustr \<Rightarrow> mobj option" where
  "re_search U f r s = search_from U f r s 0 None s"

text \<open>
  Replacement templates: literal text and group references; a group that took no part
  in the match is replaced by the empty string.
\<close>

datatype tpl = TLit ustr | TGroup nat

definition expand :: "ustr \<Rightarrow> tpl list \<Rightarrow> mobj \<Rightarrow> ustr" where
  "expand s t mo =
     concat (map (\<lambda>p. case p of TLit l \<Rightarrow> l
                       | TGroup n \<Rightarrow> (case m_group s mo n of None \<Rightarrow> [] | Some g \<Rightarrow> g)) t)"

text \<open>
  \<open>re.sub\<close> scans the subject once.  \<open>skip\<close> counts the characters of the last match
  that are still to be passed over.  After an empty match the pattern is tried again
  at the same position for a non-empty match, as Python 3.7 and later do.
\<close>

fun sub_scan ::
  "ucd \<Rightarrow> rflags \<Rightarrow> rx \<Rightarrow> tpl list \<Rightarrow> ustr \<Rightarrow> nat \<Rightarrow> nat \<Rightarrow> nat option \<Rightarrow> ustr \<Rightarrow> ustr" where
  "sub_scan U f r t s skip pos prev [] =
     (if 0 < skip then []
      else case rx_run U f s [IRx r] pos prev [] [] of
             None \<Rightarrow> []
           | Some (e, cs) \<Rightarrow> expand s t (pos, e, cs))"
| "sub_scan U f r t s skip pos prev (x # xs) =
     (if 0 < skip then sub_scan U f r t s (skip - 1) (Suc pos) (Some x) xs
      else case rx_run U f s [IRx r] pos prev (x # xs) [] of
             None \<Rightarrow> x # sub_scan U f r t s 0 (Suc pos) (Some x) xs
           | Some (e, cs) \<Rightarrow>
               if e = pos
               then expand s t (pos, e, cs) @
                    (case rx_run U f s [IRx r, IMark pos] pos prev (x # xs) [] of
                       None \<Rightarrow> x # sub_scan U f r t s 0 (Suc pos) (Some x) xs
                     | Some (e', cs') \<Rightarrow>
                         expand s t (pos, e', cs') @
                         sub_scan U f r t s (e' - pos - 1) (Suc pos) (Some x) xs)
               else expand s t (pos, e, cs) @
                    sub_scan U f r t s (e - pos - 1) (Suc pos) (Some x) xs)"

definition re_sub :: "ucd \<Rightarrow> rflags \<Rightarrow> rx \<Rightarrow> tpl list \<Rightarrow> ustr \<Rightarrow> ustr" where
  "re_sub U f r t s = sub_scan U f r t s 0 0 None s"

declare m_start_def [py_defs] m_end_def [py_defs] m_group_def [py_defs]
  m_group_start_def [py_defs] re_match_def [py_defs] re_search_def [py_defs]
  expand_def [py_defs] re_sub_def [py_defs]

section \<open>Cell splitting\<close>

text \<open>
  \<^verbatim>\<open>range(i, n, step)\<close> for a positive step, as the list of its elements.
\<close>

function py_range :: "nat \<Rightarrow> nat \<Rightarrow> nat \<Rightarrow> nat list" where
  "py_range i n step =
     (if 0 < step \<and> i < n then i # py_range (i + step) n step else [])"
  by pat_completeness auto
termination
  by (relation "measure (\<lambda>(i, n, step). n - i)") auto

declare py_range.simps [simp del]

text \<open>
  \<^verbatim>\<open>
  def split_into_excel_cells(text, limit=EXCEL_CELL_LIMIT):
      if not text:
          return [""]
      return [text[i:i+limit] for i in range(0, len(text), limit)]
  \<close>
  \<open>range\<close> raises \<open>ValueError\<close> for a zero step and is empty for a negative one.
\<close>

definition EXCEL_CELL_LIMIT :: int where
  "EXCEL_CELL_LIMIT = 32767"

definition split_into_excel_cells :: "ustr \<Rightarrow> int \<Rightarrow> py_error + ustr list" where
  "split_into_excel_cells text limit =
     (if text = [] then Inr [[]]
      else if limit = 0 then Inl ValueError
      else if limit < 0 then Inr []
      else Inr (map (\<lambda>i. take (nat limit) (drop i text))
                  (py_range 0 (length text) (nat limit))))"

subsection \<open>Properties of the chunk list\<close>

lemma chunks_concat:
  "0 < L \<Longrightarrow> concat (map (\<lambda>j. take L (drop j t)) (py_range i (length t) L)) = drop i t"
proof (induction i "length t" L rule: py_range.induct)
  case (1 i step)
  show ?case
  proof (cases "i < length t")
    case True
    have "take step (drop i t) @ drop (i + step) t = drop i t"
      by (metis add.commute append_take_drop_id drop_drop)
    with 1 True show ?thesis
      by (simp add: py_range.simps [of i])
  next
    case False
    then show ?thesis
      by (simp add: py_range.simps [of i])
  qed
qed

lemma chunks_butlast_full:
  "0 < L \<Longrightarrow> j \<in> set (butlast (py_range i n L)) \<Longrightarrow> j + L < n"
proof (induction i n L arbitrary: j rule: py_range.induct)
  case (1 i n step)
  show ?case
  proof (cases "i < n")
    case True
    note lt = True
    show ?thesis
    proof (cases "py_range (i + step) n step = []")
      case True
      with "1.prems" lt show ?thesis
        by (simp add: py_range.simps [of i])
    next
      case False
      then have nxt: "i + step < n"
        by (simp add: py_range.simps [of "i + step"] split: if_splits)
      from "1.prems" lt False
      have "j = i \<or> j \<in> set (butlast (py_range (i + step) n step))"
        by (simp add: py_range.simps [of i])
      then show ?thesis
      proof
        assume "j = i"
        with nxt show ?thesis by simp
      next
        assume "j \<in> set (butlast (py_range (i + step) n step))"
        with "1.IH" [of j] lt "1.prems" show ?thesis by simp
      qed
    qed
  next
    case False
    with "1.prems" show ?thesis
      by (simp add: py_range.simps [of i])
  qed
qed

text \<open>
  C8.  For every text and every positive limit \<open>L\<close>, \<open>split_into_excel_cells\<close> returns
  (it does not raise) a list of chunks whose concatenation is the text, every chunk has
  at most \<open>L\<close> characters, and every chunk except possibly the last has exactly \<open>L\<close>.
\<close>

theorem split_into_excel_cells_roundtrip:
  assumes "0 < L"
  shows "\<exists>cs. split_into_excel_cells text L = Inr cs
           \<and> concat cs = text
           \<and> (\<forall>c \<in> set cs. int (length c) \<le> L)
           \<and> (\<forall>c \<in> set (butlast cs). int (length c) = L)"
proof (cases "text = []")
  case True
  with assms show ?thesis
    by (simp add: split_into_excel_cells_def)
next
  case False
  let ?n = "nat L"
  let ?cs = "map (\<lambda>i. take ?n (drop i text)) (py_range 0 (length text) ?n)"
  from assms have pos: "0 < ?n" by simp
  have res: "split_into_excel_cells text L = Inr ?cs"
    using False assms by (simp add: split_into_excel_cells_def)
  have cat: "concat ?cs = text"
    using chunks_concat [OF pos, of "text" 0] by simp
  have le: "\<forall>c \<in> set ?cs. int (length c) \<le> L"
    using assms by auto
  have full: "\<forall>c \<in> set (butlast ?cs). int (length c) = L"
  proof
    fix c assume "c \<in> set (butlast ?cs)"
    then obtain j where j: "j \<in> set (butlast (py_range 0 (length text) ?n))"
      and c: "c = take ?n (drop j text)"
      by (auto simp: map_butlast [symmetric])
    from chunks_butlast_full [OF pos j] have "j + ?n < length text" .
    with c assms show "int (length c) = L" by simp
  qed
  from res cat le full show ?thesis by blast
qed

theorem split_into_excel_cells_roundtrip_witness:
  "(0::int) < 3
   \<and> split_into_excel_cells (asc ''abcdefg'') 3 = Inr [asc ''abc'', asc ''def'', asc ''g'']
   \<and> concat [asc ''abc'', asc ''def'', asc ''g''] = asc ''abcdefg''"
proof -
  have h: "(0::int) < 3" by simp
  from split_into_excel_cells_roundtrip [OF h, of "asc ''abcdefg''"]
  obtain cs where "split_into_excel_cells (asc ''abcdefg'') 3 = Inr cs" by blast
  moreover have "split_into_excel_cells (asc ''abcdefg'') 3
      = Inr [asc ''abc'', asc ''def'', asc ''g'']"
    by (simp add: split_into_excel_cells_def asc_def py_range.simps)
  ultimately show ?thesis by (simp add: asc_def)
qed

section \<open>File names\<close>

text \<open>\<open>os.path.basename\<close> and \<open>os.path.splitext(...)[0]\<close> of \<open>posixpath\<close>.\<close>

definition basename :: "ustr \<Rightarrow> ustr" where
  "basename p = rev (takeWhile (\<lambda>c. c \<noteq> 47) (rev p))"

definition splitext_root :: "ustr \<Rightarrow> ustr" where
  "splitext_root p =
     (let name = basename p;
          dir = take (length p - length name) p;
          before_dot = rev (tl (dropWhile (\<lambda>c. c \<noteq> 46) (rev name)))
      in if 46 \<in> set name \<and> list_ex (\<lambda>c. c \<noteq> 46) before_dot
         then dir @ before_dot else p)"

definition file_stem :: "ustr \<Rightarrow> ustr" where
  "file_stem p = splitext_root (basename p)"

section \<open>SKU code\<close>

text \<open>
  \<^verbatim>\<open>
  def extract_sku_code(docx_path):
      sku_code = os.path.splitext(os.path.basename(docx_path))[0]
      processed_sku = re.sub(r'\band\b', ' ', sku_code, flags=re.IGNORECASE)
      processed_sku = re.sub(r'\bglobal\b', '', processed_sku, flags=re.IGNORECASE)
      processed_sku = re.sub(r'\([^)]*\)', ' ', processed_sku)
      processed_sku = re.sub(r'\s*-\s*and\b', ' ', processed_sku, flags=re.IGNORECASE)
      processed_sku = processed_sku.replace('-', ' ')
      processed_sku = re.sub(r'[^a-zA-Z0-9\s]', ' ', processed_sku)
      processed_sku = re.sub(r'\s+', ' ', processed_sku).strip()
      processed_sku = processed_sku.lower()
      return processed_sku
  \<close>
\<close>

definition extract_sku_code :: "ucd \<Rightarrow> ustr \<Rightarrow> ustr" where
  "extract_sku_code U docx_path =
     (let sku_code = file_stem docx_path;
          s1 = re_sub U IGNORECASE (rseq [RWordB, rstr ''and'', RWordB]) [TLit (asc '' '')] sku_code;
          s2 = re_sub U IGNORECASE (rseq [RWordB, rstr ''global'', RWordB]) [] s1;
          s3 = re_sub U NOFLAGS (rseq [RChar 40, star (RSet True [CChar 41]), RChar 41])
                 [TLit (asc '' '')] s2;
          s4 = re_sub U IGNORECASE (rseq [star rspace, RChar 45, star rspace, rstr ''and'', RWordB])
                 [TLit (asc '' '')] s3;
          s5 = py_replace (asc ''-'') (asc '' '') s4;
          s6 = re_sub U NOFLAGS (RSet True [CRange 97 122, CRange 65 90, CRange 48 57, CSpace])
                 [TLit (asc '' '')] s5;
          s7 = py_strip (re_sub U NOFLAGS (plus rspace) [TLit (asc '' '')] s6)
      in py_lower U s7)"


section \<open>Facts about substitution of character classes\<close>

lemma contains_sublist: "contains sub s \<longleftrightarrow> sublist sub s"
  by (induction s) (auto simp: sublist_Cons_right)

lemma sub_scan_class:
  "sub_scan U f (RSet neg items) [TLit l] s0 0 pos prev xs
     = concat (map (\<lambda>x. if list_ex (\<lambda>i. cls_has U (icase f) i x) items \<noteq> neg then l else [x]) xs)"
  by (induction xs arbitrary: pos prev) (auto simp: expand_def)

lemma re_sub_class:
  "re_sub U f (RSet neg items) [TLit l] s
     = concat (map (\<lambda>x. if list_ex (\<lambda>i. cls_has U (icase f) i x) items \<noteq> neg then l else [x]) s)"
  by (simp add: re_sub_def sub_scan_class)

lemma run_star_space:
  "rx_run U f s0 [IRx (RRep 0 None True (RSet False [CSpace]))] pos prev rest cs
     = Some (pos + length (takeWhile is_space rest), cs)"
  by (induction rest arbitrary: pos prev) auto

lemma run_rep_Suc:
  "rx_run U f s0 (IRx (RRep (Suc n) hi g r) # k) pos prev rest cs
     = rx_run U f s0 (IRx r # IRx (RRep n (dec hi) g r) # k) pos prev rest cs"
  by simp

lemma run_plus_space:
  "rx_run U f s0 [IRx (plus rspace)] pos prev rest cs
     = (case rest of [] \<Rightarrow> None
        | x # xs \<Rightarrow> if is_space x then Some (pos + length (takeWhile is_space rest), cs) else None)"
  by (cases rest)
     (simp_all add: plus_def rspace_def run_rep_Suc run_star_space del: rx_run.simps(10))

text \<open>What \<open>re.sub(r'\s+', ' ', s)\<close> computes.\<close>

function collapse :: "ustr \<Rightarrow> ustr" where
  "collapse [] = []"
| "collapse (x # xs) =
     (if is_space x then 32 # collapse (dropWhile is_space xs) else x # collapse xs)"
  by pat_completeness auto
termination
  by (relation "measure length") (auto simp: length_dropWhile_le less_Suc_eq_le)

lemma sub_scan_collapse:
  "skip \<le> length rest \<Longrightarrow>
   sub_scan U f (plus rspace) [TLit [32]] s0 skip pos prev rest = collapse (drop skip rest)"
proof (induction rest arbitrary: skip pos prev)
  case Nil
  then show ?case by (simp add: run_plus_space)
next
  case (Cons x xs)
  show ?case
  proof (cases "0 < skip")
    case True
    with Cons.prems have "skip - 1 \<le> length xs" by simp
    from Cons.IH [OF this] True show ?thesis
      by (cases skip) simp_all
  next
    case False
    then have [simp]: "skip = 0" by simp
    show ?thesis
    proof (cases "is_space x")
      case True
      have "length (takeWhile is_space xs) \<le> length xs"
        by (rule length_takeWhile_le)
      from Cons.IH [OF this]
      show ?thesis using True
        by (simp add: run_plus_space expand_def dropWhile_eq_drop)
    next
      case False
      with Cons.IH [of 0] show ?thesis
        by (simp add: run_plus_space)
    qed
  qed
qed

lemma re_sub_collapse: "re_sub U f (plus rspace) [TLit [32]] s = collapse s"
  using sub_scan_collapse [of 0 s] by (simp add: re_sub_def)


lemma collapse_chars: "x \<in> set (collapse t) \<Longrightarrow> x = 32 \<or> (x \<in> set t \<and> \<not> is_space x)"
  by (induction t rule: collapse.induct) (auto split: if_splits dest: set_dropWhileD)

fun dbl :: "ustr \<Rightarrow> bool" where
  "dbl (a # b # r) = ((a = 32 \<and> b = 32) \<or> dbl (b # r))"
| "dbl _ = False"

lemma dbl_sublist: "dbl r \<longleftrightarrow> sublist [32, 32] r"
  by (induction r rule: dbl.induct) (auto simp: sublist_Cons_right)

lemma is_space_32 [simp]: "is_space 32"
  by (simp add: is_space_def)

lemma collapse_hd: "t = [] \<or> \<not> is_space (hd t) \<Longrightarrow> collapse t = y # ys \<Longrightarrow> y \<noteq> 32"
  by (cases t) (auto split: if_splits)

lemma collapse_not_dbl: "\<not> dbl (collapse t)"
proof (induction t rule: collapse.induct)
  case 1
  show ?case by simp
next
  case (2 x xs)
  show ?case
  proof (cases "is_space x")
    case True
    let ?c = "collapse (dropWhile is_space xs)"
    have hd: "dropWhile is_space xs = [] \<or> \<not> is_space (hd (dropWhile is_space xs))"
      using hd_dropWhile [of is_space xs] by blast
    show ?thesis
    proof (cases ?c)
      case Nil
      with True show ?thesis by simp
    next
      case (Cons y ys)
      from collapse_hd [OF hd Cons] have "y \<noteq> 32" .
      with 2(1) [OF True] Cons True show ?thesis by simp
    qed
  next
    case False
    then have "x \<noteq> 32" by auto
    with 2(2) [OF False] False show ?thesis
      by (cases "collapse xs") simp_all
  qed
qed

lemma sublist_py_strip: "sublist (py_strip y) y"
proof -
  let ?z = "dropWhile is_space y"
  have "suffix ?z y" by (rule suffix_dropWhile)
  moreover have "prefix (py_strip y) ?z"
    using suffix_dropWhile [of is_space "rev ?z"]
    by (simp add: py_strip_def py_rstrip_def py_lstrip_def suffix_to_prefix)
  ultimately show ?thesis
    by (meson prefix_imp_sublist suffix_imp_sublist sublist_order.order_trans)
qed

lemma last_dropWhile: "dropWhile P xs \<noteq> [] \<Longrightarrow> last (dropWhile P xs) = last xs"
  by (induction xs) (auto split: if_splits)

lemma py_strip_ends:
  assumes "py_strip y \<noteq> []"
  shows "\<not> is_space (hd (py_strip y))" and "\<not> is_space (last (py_strip y))"
proof -
  let ?z = "dropWhile is_space y"
  let ?w = "dropWhile is_space (rev ?z)"
  from assms have w: "?w \<noteq> []"
    by (simp add: py_strip_def py_rstrip_def py_lstrip_def)
  then have z: "?z \<noteq> []" by (metis dropWhile.simps(1) rev.simps(1))
  have "hd (py_strip y) = last ?w"
    using w by (simp add: py_strip_def py_rstrip_def py_lstrip_def hd_rev)
  also have "\<dots> = last (rev ?z)" using w by (rule last_dropWhile)
  also have "\<dots> = hd ?z" using z by (simp add: last_rev)
  finally show "\<not> is_space (hd (py_strip y))"
    using hd_dropWhile [OF z] by simp
  have "last (py_strip y) = hd ?w"
    using w by (simp add: py_strip_def py_rstrip_def py_lstrip_def last_rev)
  then show "\<not> is_space (last (py_strip y))"
    using hd_dropWhile [OF w] by simp
qed

definition sku_char :: "nat \<Rightarrow> bool" where
  "sku_char c \<longleftrightarrow> is_ascii_lower c \<or> is_ascii_digit c \<or> c = 32"

lemma sku_tail:
  fixes s5 :: ustr and U :: ucd
  defines "s6 \<equiv> re_sub U NOFLAGS (RSet True [CRange 97 122, CRange 65 90, CRange 48 57, CSpace])
                 [TLit (asc '' '')] s5"
  defines "s7 \<equiv> py_strip (re_sub U NOFLAGS (plus rspace) [TLit (asc '' '')] s6)"
  defines "r \<equiv> py_lower U s7"
  shows "list_all sku_char r" and "\<not> startswith r (asc '' '')" and "\<not> endswith r (asc '' '')"
    and "\<not> contains (asc ''  '') r"
proof -
  have sp: "asc '' '' = [32]" and sp2: "asc ''  '' = [32, 32]"
    by (simp_all add: asc_def)
  have s6: "\<forall>x \<in> set s6. is_space x \<or> is_ascii_lower x \<or> is_ascii_upper x \<or> is_ascii_digit x"
    by (auto simp: s6_def re_sub_class sp NOFLAGS_def is_ascii_lower_def is_ascii_upper_def
        is_ascii_digit_def split: if_splits)
  have s7_eq: "s7 = py_strip (collapse s6)"
    by (simp add: s7_def sp re_sub_collapse)
  have sub: "sublist s7 (collapse s6)"
    unfolding s7_eq by (rule sublist_py_strip)
  have s7: "\<forall>x \<in> set s7. x = 32 \<or> is_ascii_lower x \<or> is_ascii_upper x \<or> is_ascii_digit x"
  proof
    fix x assume "x \<in> set s7"
    with sub have "x \<in> set (collapse s6)" by (auto dest: set_mono_sublist)
    with collapse_chars [of x s6] s6
    show "x = 32 \<or> is_ascii_lower x \<or> is_ascii_upper x \<or> is_ascii_digit x" by blast
  qed
  then have ascii: "list_all (\<lambda>c. c < 128) s7"
    by (auto simp: list_all_iff is_ascii_lower_def is_ascii_upper_def is_ascii_digit_def)
  then have r: "r = map ascii_lower s7"
    by (simp add: r_def py_lower_def)
  have low32: "\<And>c. ascii_lower c = 32 \<longleftrightarrow> c = 32"
    by (auto simp: ascii_lower_def is_ascii_upper_def)
  show "list_all sku_char r"
    using s7 unfolding r list_all_iff sku_char_def
    by (auto simp: ascii_lower_def is_ascii_lower_def is_ascii_upper_def is_ascii_digit_def)
  show "\<not> startswith r (asc '' '')"
  proof
    assume "startswith r (asc '' '')"
    then obtain c cs where c: "s7 = c # cs" "ascii_lower c = 32"
      by (cases s7) (auto simp: startswith_def sp r)
    then have "s7 \<noteq> []" "hd s7 = 32" by (simp_all add: low32)
    with py_strip_ends(1) [of "collapse s6"] s7_eq show False by simp
  qed
  show "\<not> endswith r (asc '' '')"
  proof
    assume "endswith r (asc '' '')"
    then obtain zs where "r = zs @ [32]"
      by (auto simp: endswith_def sp suffix_def)
    then have "s7 \<noteq> []" "ascii_lower (last s7) = 32"
      unfolding r by (auto simp: map_eq_append_conv)
    then have "s7 \<noteq> []" "last s7 = 32" by (simp_all add: low32)
    with py_strip_ends(2) [of "collapse s6"] s7_eq show False by simp
  qed
  show "\<not> contains (asc ''  '') r"
  proof
    assume "contains (asc ''  '') r"
    then have "sublist [32, 32] (map ascii_lower s7)"
      by (simp add: contains_sublist sp2 r)
    then obtain ps ss where "map ascii_lower s7 = ps @ [32, 32] @ ss"
      by (auto simp: sublist_def)
    then obtain ps' a b ss' where "s7 = ps' @ [a, b] @ ss'" "ascii_lower a = 32" "ascii_lower b = 32"
      by (auto simp: map_eq_append_conv map_eq_Cons_conv)
    then have "sublist [32, 32] s7"
      by (auto simp: low32 sublist_def)
    with sub have "sublist [32, 32] (collapse s6)"
      by (meson sublist_order.order_trans)
    then show False
      using collapse_not_dbl [of s6] by (simp add: dbl_sublist)
  qed
qed


text \<open>
  C10.  For every path (and whatever the Unicode database says about non-ASCII code
  points), the SKU code consists of lower-case ASCII letters, digits and spaces only,
  it neither starts nor ends with a space, and it has no two spaces in a row.
\<close>

theorem extract_sku_code_charset:
  "list_all sku_char (extract_sku_code U docx_path)
   \<and> \<not> startswith (extract_sku_code U docx_path) (asc '' '')
   \<and> \<not> endswith (extract_sku_code U docx_path) (asc '' '')
   \<and> \<not> contains (asc ''  '') (extract_sku_code U docx_path)"
  unfolding extract_sku_code_def Let_def
  by (intro conjI sku_tail)

theorem extract_sku_code_charset_witness:
  "extract_sku_code ucd_caseless (asc ''/in/Global Oil & Gas (O&G) - and Sand-and_Water Market.docx'')
     = asc ''oil gas sand and water market''
   \<and> list_all sku_char (asc ''oil gas sand and water market'')
   \<and> \<not> contains (asc ''  '') (asc ''oil gas sand and water market'')"
proof -
  have e: "extract_sku_code ucd_caseless
             (asc ''/in/Global Oil & Gas (O&G) - and Sand-and_Water Market.docx'')
           = asc ''oil gas sand and water market''"
    by (simp add: extract_sku_code_def file_stem_def basename_def splitext_root_def py_defs cong: let_weak_cong)
  from extract_sku_code_charset
    [of ucd_caseless "asc ''/in/Global Oil & Gas (O&G) - and Sand-and_Water Market.docx''"]
  show ?thesis unfolding e by simp
qed


section \<open>Documents\<close>

text \<open>
  What the source reads of a loaded document (\<open>python-docx\<close>): the body paragraphs with
  their runs, the tables as rows of cell texts, and the relationship table that maps the
  \<open>r:id\<close> of a hyperlink to its target.
\<close>

datatype hyperlink = NoLink | LinkNoId | LinkId ustr

record run =
  r_text :: ustr
  r_bold :: bool
  r_italic :: bool
  r_link :: hyperlink
  r_br :: bool

record para =
  p_text :: ustr
  p_runs :: "run list"
  p_style :: ustr
  p_numPr :: bool
  p_ilvl :: "int option"

type_synonym table = "ustr list list"

record document =
  d_paragraphs :: "para list"
  d_tables :: "table list"
  d_rels :: "(ustr \<times> ustr) list"

section \<open>Inline formatter\<close>

text \<open>
  \<open>remove_emojis\<close> deletes every maximal run of code points of the listed ranges
  (\<^verbatim>\<open>emoji_pattern.sub(r'', text or "")\<close>); the ranges from U+1F300 on lie inside the
  last one, U+10000 to U+10FFFF.
\<close>

definition is_emoji :: "nat \<Rightarrow> bool" where
  "is_emoji c \<longleftrightarrow>
     (9728 \<le> c \<and> c \<le> 9983) \<or> (9984 \<le> c \<and> c \<le> 10175) \<or> (11008 \<le> c \<and> c \<le> 11263)
     \<or> (65536 \<le> c \<and> c \<le> 1114111)"

definition remove_emojis :: "ustr \<Rightarrow> ustr" where
  "remove_emojis text = filter (\<lambda>c. \<not> is_emoji c) text"

definition wrap :: "string \<Rightarrow> ustr \<Rightarrow> string \<Rightarrow> ustr" where
  "wrap l txt r = asc l @ txt @ asc r"

text \<open>
  The module defines \<open>runs_to_html\<close> three times.  The first definition (line 190):
  \<^verbatim>\<open>
  def runs_to_html(runs):
      """Convert Word runs (bold/italic) to inline HTML with hyperlink support."""
      parts = []
      for run in runs:
          txt = remove_emojis(run.text.strip())
          if not txt:
              continue
          if run._element.xpath("ancestor::w:hyperlink"):
              rId = run._element.xpath("ancestor::w:hyperlink/@r:id")
              if rId:
                  try:
                      link = run.part.rels[rId[0]].target_ref
                      parts.append(f'<a href="{link}">{txt}</a>')
                  except Exception:
                      parts.append(txt)
              else:
                  parts.append(txt)
          elif run.bold and run.italic: parts.append(f"<b><i>{txt}</i></b>")
          elif run.bold: parts.append(f"<b>{txt}</b>")
          elif run.italic: parts.append(f"<i>{txt}</i>")
          else: parts.append(txt)
      return " ".join(parts).strip()
  \<close>
\<close>

definition style_part :: "run \<Rightarrow> ustr \<Rightarrow> ustr" where
  "style_part run txt =
     (if r_bold run \<and> r_italic run then wrap ''<b><i>'' txt ''</i></b>''
      else if r_bold run then wrap ''<b>'' txt ''</b>''
      else if r_italic run then wrap ''<i>'' txt ''</i>''
      else txt)"

definition link_part :: "(ustr \<times> ustr) list \<Rightarrow> run \<Rightarrow> ustr \<Rightarrow> ustr" where
  "link_part rels run txt =
     (case r_link run of
        NoLink \<Rightarrow> style_part run txt
      | LinkNoId \<Rightarrow> txt
      | LinkId rid \<Rightarrow>
          (case map_of rels rid of
             Some link \<Rightarrow> asc ''<a href=\"'' @ link @ asc ''\">'' @ txt @ asc ''</a>''
           | None \<Rightarrow> txt))"

definition runs_to_html_190 :: "(ustr \<times> ustr) list \<Rightarrow> run list \<Rightarrow> ustr" where
  "runs_to_html_190 rels runs =
     py_strip (py_join (asc '' '')
       (concat (map (\<lambda>run. let txt = remove_emojis (py_strip (r_text run))
                           in if txt = [] then [] else [link_part rels run txt]) runs)))"

text \<open>
  The second definition (line 1571) keeps line breaks and joins without spaces:
  \<^verbatim>\<open>
  def runs_to_html(runs):
      parts = []
      for run in runs:
          txt = remove_emojis(run.text)
          if not txt and not run._element.xpath(".//w:br"):
              continue
          if run._element.xpath(".//w:br"):
              parts.append("<br>")
          if run.bold and run.italic: ...
      return "".join(parts).strip()
  \<close>
\<close>

definition runs_to_html_1571 :: "run list \<Rightarrow> ustr" where
  "runs_to_html_1571 runs =
     py_strip (concat
       (concat (map (\<lambda>run. let txt = remove_emojis (r_text run)
                           in if txt = [] \<and> \<not> r_br run then []
                              else (if r_br run then [asc ''<br>''] else []) @ [style_part run txt])
                   runs)))"

text \<open>
  The third definition (line 3969) is the one the name \<open>runs_to_html\<close> is bound to once
  the module is loaded, so it is the one every caller runs:
  \<^verbatim>\<open>
  def runs_to_html(runs):
      """Convert Word runs (bold/italic) to inline HTML."""
      parts = []
      for run in runs:
          txt = remove_emojis(run.text.strip())
          if not txt:
              continue
          if run.bold and run.italic: parts.append(f"<b><i>{txt}</i></b>")
          elif run.bold: parts.append(f"<b>{txt}</b>")
          elif run.italic: parts.append(f"<i>{txt}</i>")
          else: parts.append(txt)
      return " ".join(parts).strip()
  \<close>
\<close>

definition runs_to_html :: "run list \<Rightarrow> ustr" where
  "runs_to_html runs =
     py_strip (py_join (asc '' '')
       (concat (map (\<lambda>run. let txt = remove_emojis (py_strip (r_text run))
                           in if txt = [] then [] else [style_part run txt]) runs)))"

declare is_emoji_def [py_defs] remove_emojis_def [py_defs] wrap_def [py_defs]
  style_part_def [py_defs] link_part_def [py_defs] runs_to_html_190_def [py_defs]
  runs_to_html_1571_def [py_defs] runs_to_html_def [py_defs]





lemma style_part_link [simp]: "style_part (r\<lparr>r_link := h\<rparr>) txt = style_part r txt"
  by (simp add: style_part_def)








section \<open>FAQ schema and methodology\<close>

text \<open>
  \<^verbatim>\<open>
  def _get_text(docx_path):
      doc = Document(docx_path)
      return "\n".join(p.text for p in doc.paragraphs if p.text and p.text.strip())
  \<close>
\<close>

definition get_text :: "document \<Rightarrow> ustr" where
  "get_text doc =
     py_join [10] (filter (\<lambda>t. t \<noteq> [] \<and> py_strip t \<noteq> []) (map p_text (d_paragraphs doc)))"

text \<open>
  \<^verbatim>\<open>
  def _extract_json_block(text, type_name):
      pat = re.compile(r'"@type"\s*:\s*"' + re.escape(type_name) + r'"')
      m = pat.search(text)
      if not m:
          return ""
      start_idx = text.rfind("{", 0, m.start())
      if start_idx == -1:
          return ""
      depth, i, n = 0, start_idx, len(text)
      block_chars = []
      while i < n:
          ch = text[i]
          block_chars.append(ch)
          if ch == "{":
              depth += 1
          elif ch == "}":
              depth -= 1
              if depth == 0:
                  break
          i += 1
      return "".join(block_chars).strip()
  \<close>
  The type names of the source are \<open>FAQPage\<close> and \<open>BreadcrumbList\<close>, which
  \<open>re.escape\<close> leaves as they are.
\<close>

definition type_pattern :: "ustr \<Rightarrow> rx" where
  "type_pattern type_name =
     rseq [rstr ''\"@type\"'', star rspace, RChar 58, star rspace, RChar 34, rlit type_name, RChar 34]"

text \<open>\<open>text.rfind(c, 0, e)\<close>: the last index of \<open>c\<close> before \<open>e\<close>.\<close>

definition rfind_before :: "nat \<Rightarrow> nat \<Rightarrow> ustr \<Rightarrow> nat option" where
  "rfind_before c e text =
     (let pre = take e text; after = takeWhile (\<lambda>x. x \<noteq> c) (rev pre)
      in if c \<in> set pre then Some (length pre - 1 - length after) else None)"

fun brace_block :: "int \<Rightarrow> ustr \<Rightarrow> ustr" where
  "brace_block depth [] = []"
| "brace_block depth (ch # rest) =
     ch # (if ch = 123 then brace_block (depth + 1) rest
           else if ch = 125 then (if depth - 1 = 0 then [] else brace_block (depth - 1) rest)
           else brace_block depth rest)"

definition extract_json_block :: "ucd \<Rightarrow> ustr \<Rightarrow> ustr \<Rightarrow> ustr" where
  "extract_json_block U text type_name =
     (case re_search U NOFLAGS (type_pattern type_name) text of
        None \<Rightarrow> []
      | Some mo \<Rightarrow>
          (case rfind_before 123 (m_start mo) text of
             None \<Rightarrow> []
           | Some start_idx \<Rightarrow> py_strip (brace_block 0 (drop start_idx text))))"

definition extract_faq_schema :: "ucd \<Rightarrow> document \<Rightarrow> ustr" where
  "extract_faq_schema U doc = extract_json_block U (get_text doc) (asc ''FAQPage'')"

text \<open>
  The values \<open>json.loads\<close> returns.  The parser itself belongs to Python's library: it
  is a parameter \<open>J\<close> of the model, which gives the parsed value or the exception raised.
  A \<open>dict\<close> is the list of its items, the keys distinct.
\<close>

datatype json = JNull | JBool bool | JNum int | JStr ustr | JArr "json list"
  | JObj "(ustr \<times> json) list"

text \<open>\<open>d.get(k, dflt)\<close>: only a \<open>dict\<close> has the method.\<close>

definition dict_get :: "json \<Rightarrow> ustr \<Rightarrow> json \<Rightarrow> py_error + json" where
  "dict_get d k dflt =
     (case d of
        JObj kvs \<Rightarrow> Inr (case map_of kvs k of Some v \<Rightarrow> v | None \<Rightarrow> dflt)
      | _ \<Rightarrow> Inl AttributeError)"

text \<open>\<open>v.strip()\<close>: only a \<open>str\<close> has the method.\<close>

definition json_strip :: "json \<Rightarrow> py_error + ustr" where
  "json_strip v = (case v of JStr s \<Rightarrow> Inr (py_strip s) | _ \<Rightarrow> Inl AttributeError)"

text \<open>\<open>for item in v\<close>: a list gives its elements, a string its characters, a dict its keys.\<close>

definition json_iter :: "json \<Rightarrow> py_error + json list" where
  "json_iter v =
     (case v of
        JArr xs \<Rightarrow> Inr xs
      | JStr s \<Rightarrow> Inr (map (\<lambda>c. JStr [c]) s)
      | JObj kvs \<Rightarrow> Inr (map (\<lambda>kv. JStr (fst kv)) kvs)
      | _ \<Rightarrow> Inl TypeError)"

text \<open>\<open>html.escape(s)\<close> with \<open>quote=True\<close>.\<close>

definition html_escape :: "ustr \<Rightarrow> ustr" where
  "html_escape s =
     py_replace (asc [CHR 0x27]) (asc ''&#x27;'')
       (py_replace (asc ''\"'') (asc ''&quot;'')
         (py_replace (asc ''>'') (asc ''&gt;'')
           (py_replace (asc ''<'') (asc ''&lt;'')
             (py_replace (asc ''&'') (asc ''&amp;'') s))))"

text \<open>\<open>str(n)\<close> for a natural number.\<close>

fun str_nat :: "nat \<Rightarrow> ustr" where
  "str_nat n = (if n < 10 then [48 + n] else str_nat (n div 10) @ [48 + n mod 10])"

declare str_nat.simps [simp del]

text \<open>
  \<^verbatim>\<open>
  def extract_methodology_from_faqschema(docx_path):
      faq_schema_str = extract_faq_schema(docx_path)
      if not faq_schema_str:
          return ""
      try:
          cleaned_json = re.sub(r'\s+', ' ', faq_schema_str.strip())
          faq_data = json.loads(cleaned_json)
      except json.JSONDecodeError:
          return ""
      faqs = []
      q_count = 0
      for item in faq_data.get("mainEntity", []):
          q_count += 1
          question = item.get("name", "").strip()
          answer = item.get("acceptedAnswer", {}).get("text", "").strip()
          if question and answer:
              faqs.append(
                  f"<p><strong>Q{q_count}: {html.escape(question)}</strong><br>"
                  f"A{q_count}: {html.escape(answer)}</p>"
              )
      return "\n".join(faqs)
  \<close>
\<close>

definition item_question :: "json \<Rightarrow> py_error + ustr" where
  "item_question item =
     (case dict_get item (asc ''name'') (JStr []) of
        Inl e \<Rightarrow> Inl e
      | Inr v \<Rightarrow> json_strip v)"

definition item_answer :: "json \<Rightarrow> py_error + ustr" where
  "item_answer item =
     (case dict_get item (asc ''acceptedAnswer'') (JObj []) of
        Inl e \<Rightarrow> Inl e
      | Inr aa \<Rightarrow>
          (case dict_get aa (asc ''text'') (JStr []) of
             Inl e \<Rightarrow> Inl e
           | Inr v \<Rightarrow> json_strip v))"

definition render_faq :: "nat \<Rightarrow> ustr \<Rightarrow> ustr \<Rightarrow> ustr" where
  "render_faq q_count question answer =
     asc ''<p><strong>Q'' @ str_nat q_count @ asc '': '' @ html_escape question
     @ asc ''</strong><br>'' @ asc ''A'' @ str_nat q_count @ asc '': '' @ html_escape answer
     @ asc ''</p>''"

fun faq_loop :: "json list \<Rightarrow> nat \<Rightarrow> ustr list \<Rightarrow> py_error + ustr list" where
  "faq_loop [] q_count faqs = Inr faqs"
| "faq_loop (item # items) q_count faqs =
     (case item_question item of
        Inl e \<Rightarrow> Inl e
      | Inr question \<Rightarrow>
          (case item_answer item of
             Inl e \<Rightarrow> Inl e
           | Inr answer \<Rightarrow>
               faq_loop items (q_count + 1)
                 (if question \<noteq> [] \<and> answer \<noteq> []
                  then faqs @ [render_faq (q_count + 1) question answer] else faqs)))"

definition extract_methodology_from_faqschema ::
  "(ustr \<Rightarrow> py_error + json) \<Rightarrow> ucd \<Rightarrow> document \<Rightarrow> py_error + ustr" where
  "extract_methodology_from_faqschema J U doc =
     (let faq_schema_str = extract_faq_schema U doc in
      if faq_schema_str = [] then Inr []
      else case J (re_sub U NOFLAGS (plus rspace) [TLit (asc '' '')] (py_strip faq_schema_str)) of
             Inl JSONDecodeError \<Rightarrow> Inr []
           | Inl e \<Rightarrow> Inl e
           | Inr faq_data \<Rightarrow>
               (case dict_get faq_data (asc ''mainEntity'') (JArr []) of
                  Inl e \<Rightarrow> Inl e
                | Inr entity \<Rightarrow>
                    (case json_iter entity of
                       Inl e \<Rightarrow> Inl e
                     | Inr items \<Rightarrow>
                         (case faq_loop items 0 [] of
                            Inl e \<Rightarrow> Inl e
                          | Inr faqs \<Rightarrow> Inr (py_join [10] faqs)))))"

declare get_text_def [py_defs] type_pattern_def [py_defs] rfind_before_def [py_defs]
  extract_json_block_def [py_defs] extract_faq_schema_def [py_defs] dict_get_def [py_defs]
  json_strip_def [py_defs] json_iter_def [py_defs] html_escape_def [py_defs]
  item_question_def [py_defs] item_answer_def [py_defs] render_faq_def [py_defs]
  extract_methodology_from_faqschema_def [py_defs]

subsection \<open>Numbering of the questions\<close>

text \<open>An entry is readable when \<open>item.get\<close> and \<open>strip\<close> succeed on it.\<close>

definition readable :: "json \<Rightarrow> bool" where
  "readable item \<longleftrightarrow> \<not> isl (item_question item) \<and> \<not> isl (item_answer item)"

lemma faq_loop_positions:
  "list_all readable items \<Longrightarrow>
   faq_loop items n faqs =
     Inr (faqs @ concat (map (\<lambda>(i, item).
            case (item_question item, item_answer item) of
              (Inr q, Inr a) \<Rightarrow>
                if q \<noteq> [] \<and> a \<noteq> []
                then [asc ''<p><strong>Q'' @ str_nat (i + 1) @ asc '': '' @ html_escape q
                      @ asc ''</strong><br>A'' @ str_nat (i + 1) @ asc '': '' @ html_escape a
                      @ asc ''</p>'']
                else []
            | _ \<Rightarrow> []) (enumerate n items)))"
proof (induction items arbitrary: n faqs)
  case Nil
  show ?case by simp
next
  case (Cons item items)
  from Cons.prems obtain q a where qa: "item_question item = Inr q" "item_answer item = Inr a"
    by (cases "item_question item"; cases "item_answer item") (auto simp: readable_def)
  from Cons.prems have rest: "list_all readable items" by simp
  have label: "render_faq (Suc n) q a =
      asc ''<p><strong>Q'' @ str_nat (Suc n) @ asc '': '' @ html_escape q
      @ asc ''</strong><br>A'' @ str_nat (Suc n) @ asc '': '' @ html_escape a @ asc ''</p>''"
    by (simp add: render_faq_def asc_def)
  show ?case
    using qa Cons.IH [OF rest, of "Suc n"] by (simp add: label)
qed

text \<open>The decimal digits of the numbers 0 to 9.\<close>

lemma str_nat_digit: "n < 10 \<Longrightarrow> str_nat n = [48 + n]"
  by (simp add: str_nat.simps)

text \<open>
  C9.  When the FAQ block parses to a dict whose \<open>mainEntity\<close> is a list of readable
  entries, the result is the lines of the entries whose question and answer are not
  empty, in order, and the line of the entry at index \<open>i\<close> is
  \<^verbatim>\<open><p><strong>Q{i+1}: question</strong><br>A{i+1}: answer</p>\<close>: both labels carry the
  1-based position of the entry in \<open>mainEntity\<close>, whatever was left out before it.
\<close>

theorem methodology_labels_by_position:
  assumes "extract_faq_schema U doc \<noteq> []"
    and "J (re_sub U NOFLAGS (plus rspace) [TLit (asc '' '')] (py_strip (extract_faq_schema U doc)))
           = Inr faq_data"
    and "dict_get faq_data (asc ''mainEntity'') (JArr []) = Inr (JArr items)"
    and "list_all readable items"
  shows "extract_methodology_from_faqschema J U doc =
     Inr (py_join [10]
       (concat (map (\<lambda>(i, item).
          case (item_question item, item_answer item) of
            (Inr q, Inr a) \<Rightarrow>
              if q \<noteq> [] \<and> a \<noteq> []
              then [asc ''<p><strong>Q'' @ str_nat (i + 1) @ asc '': '' @ html_escape q
                    @ asc ''</strong><br>A'' @ str_nat (i + 1) @ asc '': '' @ html_escape a
                    @ asc ''</p>'']
              else []
          | _ \<Rightarrow> []) (enumerate 0 items))))"
  using assms faq_loop_positions [of items 0 "[]"]
  by (simp add: extract_methodology_from_faqschema_def json_iter_def)

text \<open>
  A document whose FAQ block has three entries, the second with an empty answer, and
  the value \<open>json.loads\<close> returns for the block.
\<close>

definition faq_doc :: document where
  "faq_doc = \<lparr>d_paragraphs =
       [\<lparr>p_text = asc ''{\"@type\":\"FAQPage\",\"mainEntity\":[{\"name\":\"A?\",\"acceptedAnswer\":{\"text\":\"x\"}},{\"name\":\"B?\",\"acceptedAnswer\":{\"text\":\"\"}},{\"name\":\"C?\",\"acceptedAnswer\":{\"text\":\"z\"}}]}'',
         p_runs = [], p_style = asc ''Normal'', p_numPr = False, p_ilvl = None\<rparr>],
     d_tables = [], d_rels = []\<rparr>"

definition faq_entry :: "string \<Rightarrow> string \<Rightarrow> json" where
  "faq_entry q a = JObj [(asc ''name'', JStr (asc q)),
                         (asc ''acceptedAnswer'', JObj [(asc ''text'', JStr (asc a))])]"

definition faq_items :: "json list" where
  "faq_items = [faq_entry ''A?'' ''x'', faq_entry ''B?'' [], faq_entry ''C?'' ''z'']"

definition faq_json :: "ustr \<Rightarrow> py_error + json" where
  "faq_json s = Inr (JObj [(asc ''@type'', JStr (asc ''FAQPage'')), (asc ''mainEntity'', JArr faq_items)])"

lemma faq_doc_block:
  "extract_faq_schema ucd_caseless faq_doc = p_text (hd (d_paragraphs faq_doc))"
  by (simp add: faq_doc_def py_defs cong: let_weak_cong)

theorem methodology_labels_by_position_witness:
  "extract_methodology_from_faqschema faq_json ucd_caseless faq_doc
     = Inr (asc ''<p><strong>Q1: A?</strong><br>A1: x</p>'' @ [10]
            @ asc ''<p><strong>Q3: C?</strong><br>A3: z</p>'')"
proof -
  have 1: "extract_faq_schema ucd_caseless faq_doc \<noteq> []"
    by (simp add: faq_doc_block) (simp add: faq_doc_def asc_def)
  have 2: "faq_json (re_sub ucd_caseless NOFLAGS (plus rspace) [TLit (asc '' '')]
              (py_strip (extract_faq_schema ucd_caseless faq_doc)))
           = Inr (JObj [(asc ''@type'', JStr (asc ''FAQPage'')), (asc ''mainEntity'', JArr faq_items)])"
    by (simp add: faq_json_def)
  have 3: "dict_get (JObj [(asc ''@type'', JStr (asc ''FAQPage'')), (asc ''mainEntity'', JArr faq_items)])
             (asc ''mainEntity'') (JArr []) = Inr (JArr faq_items)"
    by (simp add: dict_get_def asc_def)
  have 4: "list_all readable faq_items"
    by (simp add: faq_items_def faq_entry_def readable_def py_defs cong: let_weak_cong)
  have 5: "item_question (faq_entry ''A?'' ''x'') = Inr (asc ''A?'')"
          "item_answer (faq_entry ''A?'' ''x'') = Inr (asc ''x'')"
          "item_question (faq_entry ''B?'' []) = Inr (asc ''B?'')"
          "item_answer (faq_entry ''B?'' []) = Inr []"
          "item_question (faq_entry ''C?'' ''z'') = Inr (asc ''C?'')"
          "item_answer (faq_entry ''C?'' ''z'') = Inr (asc ''z'')"
    by (simp_all add: faq_entry_def py_defs cong: let_weak_cong)
  have 6: "html_escape (asc ''A?'') = asc ''A?''" "html_escape (asc ''x'') = asc ''x''"
          "html_escape (asc ''C?'') = asc ''C?''" "html_escape (asc ''z'') = asc ''z''"
    by (simp_all add: py_defs cong: let_weak_cong)
  from methodology_labels_by_position
      [where J = faq_json and U = ucd_caseless and doc = faq_doc, OF 1 2 3 4]
  show ?thesis
    by (simp add: faq_items_def enumerate_eq_zip 5 6 str_nat_digit) (simp add: asc_def)
qed

section \<open>Report coverage table\<close>

text \<open>
  \<^verbatim>\<open>
  def extract_report_coverage_table_with_style(docx_path):
      doc = Document(docx_path)
      for table_idx, table in enumerate(doc.tables):
          if len(table.rows) == 0:
              continue
          first_row_text = " ".join([c.text.strip().lower() for c in table.rows[0].cells])
          is_report_table = (
              "report attribute" in first_row_text or
              "report coverage table" in first_row_text or
              "forecast period" in first_row_text or
              "market size" in first_row_text or
              "revenue forecast" in first_row_text or
              ("forecast" in first_row_text and "period" in first_row_text) or
              ("market" in first_row_text and "size" in first_row_text)
          )
          if is_report_table:
              html_parts = [...]      # heading, table, one <tr> per row, one <td> per cell
              return "\n".join(html_parts)
      return ""
  \<close>
\<close>

definition first_row_text :: "ucd \<Rightarrow> table \<Rightarrow> ustr" where
  "first_row_text U t = py_join (asc '' '') (map (\<lambda>c. py_lower U (py_strip c)) (hd t))"

definition is_report_table :: "ustr \<Rightarrow> bool" where
  "is_report_table first_row \<longleftrightarrow>
     contains (asc ''report attribute'') first_row
     \<or> contains (asc ''report coverage table'') first_row
     \<or> contains (asc ''forecast period'') first_row
     \<or> contains (asc ''market size'') first_row
     \<or> contains (asc ''revenue forecast'') first_row
     \<or> (contains (asc ''forecast'') first_row \<and> contains (asc ''period'') first_row)
     \<or> (contains (asc ''market'') first_row \<and> contains (asc ''size'') first_row)"

definition apos :: ustr where
  "apos = [39]"

definition coverage_cell_style :: "nat \<Rightarrow> nat \<Rightarrow> ustr" where
  "coverage_cell_style r_idx c_idx =
     (if r_idx = 0 then
        (if c_idx = 0
         then asc ''background-color:#4472c4; border-bottom:1px solid #4472c4; border-left:1px solid #4472c4; border-right:none; border-top:1px solid #4472c4; vertical-align:top; width:195px''
         else asc ''background-color:#4472c4; border-bottom:1px solid #4472c4; border-left:none; border-right:1px solid #4472c4; border-top:1px solid #4472c4; vertical-align:top; width:370px'')
      else
        (let bg_color = (if r_idx mod 2 = 1 then asc ''#d9e2f3'' else []) in
         if c_idx = 0 then
           (if bg_color \<noteq> []
            then asc ''background-color:'' @ bg_color @ asc ''; border-bottom:1px solid #8eaadb; border-left:1px solid #8eaadb; border-right:1px solid #8eaadb; border-top:none; vertical-align:top; width:195px''
            else asc ''border-bottom:1px solid #8eaadb; border-left:1px solid #8eaadb; border-right:1px solid #8eaadb; border-top:none; vertical-align:top; width:195px'')
         else
           (if bg_color \<noteq> []
            then asc ''background-color:'' @ bg_color @ asc ''; border-bottom:1px solid #8eaadb; border-left:none; border-right:1px solid #8eaadb; border-top:none; vertical-align:top; width:370px''
            else asc ''border-bottom:1px solid #8eaadb; border-left:none; border-right:1px solid #8eaadb; border-top:none; vertical-align:top; width:370px'')))"

definition coverage_cell :: "nat \<Rightarrow> nat \<times> ustr \<Rightarrow> ustr list" where
  "coverage_cell r_idx c =
     (let text = remove_emojis (py_strip (snd c)) in
      [asc ''                <td style='' @ apos @ coverage_cell_style r_idx (fst c) @ apos @ asc ''>'',
       asc ''                <p><strong>'' @ text @ asc ''</strong></p>'',
       asc ''                </td>''])"

definition coverage_row :: "nat \<times> ustr list \<Rightarrow> ustr list" where
  "coverage_row r =
     [asc ''            <tr>'']
     @ concat (map (coverage_cell (fst r)) (enumerate 0 (snd r)))
     @ [asc ''            </tr>'']"

definition coverage_html :: "table \<Rightarrow> ustr" where
  "coverage_html t =
     py_join [10]
       ([asc ''<h2><strong>7.1. Report Coverage Table</strong></h2>'',
         [],
         asc ''<table cellspacing=0 style='' @ apos @ asc ''border-collapse:collapse; width:100%'' @ apos @ asc ''>'',
         asc ''        <tbody>'']
        @ concat (map coverage_row (enumerate 0 t))
        @ [asc ''        </tbody>'', asc ''</table>''])"

fun coverage_tables :: "ucd \<Rightarrow> table list \<Rightarrow> ustr" where
  "coverage_tables U [] = []"
| "coverage_tables U (t # ts) =
     (if length t = 0 then coverage_tables U ts
      else if is_report_table (first_row_text U t) then coverage_html t
      else coverage_tables U ts)"

definition extract_report_coverage_table_with_style :: "ucd \<Rightarrow> document \<Rightarrow> ustr" where
  "extract_report_coverage_table_with_style U doc = coverage_tables U (d_tables doc)"

declare first_row_text_def [py_defs] is_report_table_def [py_defs] apos_def [py_defs]
  coverage_cell_style_def [py_defs] coverage_cell_def [py_defs] coverage_row_def [py_defs]
  coverage_html_def [py_defs] extract_report_coverage_table_with_style_def [py_defs]

subsection \<open>Empty results\<close>

definition no_coverage_header :: "ucd \<Rightarrow> table \<Rightarrow> bool" where
  "no_coverage_header U t \<longleftrightarrow> t = [] \<or> \<not> is_report_table (first_row_text U t)"

lemma coverage_tables_none:
  "list_all (no_coverage_header U) ts \<Longrightarrow> coverage_tables U ts = []"
  by (induction ts) (auto simp: no_coverage_header_def)

text \<open>The text handed to \<open>json.loads\<close>.\<close>

definition cleaned_json :: "ucd \<Rightarrow> document \<Rightarrow> ustr" where
  "cleaned_json U doc =
     re_sub U NOFLAGS (plus rspace) [TLit (asc '' '')] (py_strip (extract_faq_schema U doc))"

text \<open>
  C5, as amended.  The report-coverage extractor returns the empty string when no table
  has a header row with one of the keywords, and the methodology extractor returns the
  empty string, without raising, when the document has no FAQ block or \<open>json.loads\<close>
  raises \<open>JSONDecodeError\<close> on it.
\<close>

theorem extractors_empty_on_mismatch:
  "(list_all (no_coverage_header U) (d_tables doc)
      \<longrightarrow> extract_report_coverage_table_with_style U doc = [])
   \<and> (extract_faq_schema U doc = [] \<or> J (cleaned_json U doc) = Inl JSONDecodeError
      \<longrightarrow> extract_methodology_from_faqschema J U doc = Inr [])"
  by (auto simp: extract_report_coverage_table_with_style_def coverage_tables_none
      extract_methodology_from_faqschema_def cleaned_json_def Let_def)

text \<open>
  A document with a table that is no coverage table and a FAQ block that is cut off,
  and a parser that rejects the block.
\<close>

definition plain_para :: "string \<Rightarrow> para" where
  "plain_para s = \<lparr>p_text = asc s, p_runs = [], p_style = asc ''Normal'', p_numPr = False,
                    p_ilvl = None\<rparr>"

definition mismatch_doc :: document where
  "mismatch_doc = \<lparr>d_paragraphs = [plain_para ''{\"@type\":\"FAQPage\",\"mainEntity\":['' ],
     d_tables = [[[asc ''Company'', asc ''Share'']]], d_rels = []\<rparr>"

definition json_rejects :: "ustr \<Rightarrow> py_error + json" where
  "json_rejects s = Inl JSONDecodeError"

theorem extractors_empty_on_mismatch_witness:
  "list_all (no_coverage_header ucd_caseless) (d_tables mismatch_doc)
   \<and> extract_report_coverage_table_with_style ucd_caseless mismatch_doc = []
   \<and> extract_faq_schema ucd_caseless mismatch_doc \<noteq> []
   \<and> json_rejects (cleaned_json ucd_caseless mismatch_doc) = Inl JSONDecodeError
   \<and> extract_methodology_from_faqschema json_rejects ucd_caseless mismatch_doc = Inr []"
proof -
  have 1: "list_all (no_coverage_header ucd_caseless) (d_tables mismatch_doc)"
    by (simp add: mismatch_doc_def no_coverage_header_def py_defs cong: let_weak_cong)
  have 2: "json_rejects (cleaned_json ucd_caseless mismatch_doc) = Inl JSONDecodeError"
    by (simp add: json_rejects_def)
  have 3: "extract_faq_schema ucd_caseless mismatch_doc \<noteq> []"
    by (simp add: mismatch_doc_def plain_para_def py_defs cong: let_weak_cong)
  from extractors_empty_on_mismatch [where U = ucd_caseless and doc = mismatch_doc and J = json_rejects]
    1 2 3
  show ?thesis by simp
qed

text \<open>
  The claim as stated: no field extractor lets an exception through.  The block below
  is valid JSON, so \<open>json.loads\<close> returns its value; the entry \<open>1\<close> of \<open>mainEntity\<close> has no
  method \<open>get\<close>, and the \<open>AttributeError\<close> leaves the extractor.
\<close>

definition odd_doc :: document where
  "odd_doc = \<lparr>d_paragraphs = [plain_para ''{\"@type\":\"FAQPage\",\"mainEntity\":[1]}''],
     d_tables = [], d_rels = []\<rparr>"

definition odd_json :: "ustr \<Rightarrow> py_error + json" where
  "odd_json s =
     (if s = asc ''{\"@type\":\"FAQPage\",\"mainEntity\":[1]}''
      then Inr (JObj [(asc ''@type'', JStr (asc ''FAQPage'')), (asc ''mainEntity'', JArr [JNum 1])])
      else Inl JSONDecodeError)"

theorem methodology_raises_on_odd_entry:
  "extract_methodology_from_faqschema odd_json ucd_caseless odd_doc = Inl AttributeError"
  by (simp add: odd_doc_def odd_json_def plain_para_def py_defs cong: let_weak_cong)


section \<open>SEO title\<close>

text \<open>
  \<^verbatim>\<open>
  def extract_seo_title(docx_path):
      doc = Document(docx_path)
      file_name = os.path.splitext(os.path.basename(docx_path))[0]
      revenue_forecast = ""

      def normalize_label(txt: str) -> str:
          t = txt.strip().lower()
          t = re.sub(r"\s+", " ", t)
          t = t.replace("forecast by", "forecast in")
          t = t.replace("forecasts in", "forecast in")
          t = t.replace("forecast (", "forecast in ")
          t = t.replace(")", "")
          return t

      for table in doc.tables:
          if not table.rows or not table.rows[0].cells:
              continue
          headers = [cell.text.strip().lower() for cell in table.rows[0].cells]
          if "report attribute" in headers and "details" in headers:
              attr_idx = headers.index("report attribute")
              details_idx = headers.index("details")
              for row in table.rows[1:]:
                  attr_raw = row.cells[attr_idx].text.strip()
                  attr = normalize_label(attr_raw)
                  details = row.cells[details_idx].text.strip()
                  attr_lower = attr_raw.lower()
                  if (("revenue forecast" in attr and (" 2030" in attr or "forecast in" in attr)) or \
                     ("revenue forecast" in attr_lower and "2030" in attr_raw)) or \
                     (("market size forecast" in attr_lower or "market size" in attr_lower) and "2030" in attr_raw):
                      revenue_forecast = re.sub(r"USD", "$", details, flags=re.I).strip()
                      break
          if revenue_forecast:
              break

      title_name = file_name.replace("_", " ")
      if revenue_forecast:
          return f"{title_name} Size ({revenue_forecast}) 2030"
      return title_name
  \<close>
\<close>

definition normalize_label :: "ucd \<Rightarrow> ustr \<Rightarrow> ustr" where
  "normalize_label U txt =
     py_replace (asc '')'') []
       (py_replace (asc ''forecast ('') (asc ''forecast in '')
         (py_replace (asc ''forecasts in'') (asc ''forecast in'')
           (py_replace (asc ''forecast by'') (asc ''forecast in'')
             (re_sub U NOFLAGS (plus rspace) [TLit (asc '' '')] (py_lower U (py_strip txt))))))"

text \<open>\<open>xs.index(x)\<close> for an \<open>x\<close> that is in \<open>xs\<close>.\<close>

definition py_index :: "'a list \<Rightarrow> 'a \<Rightarrow> nat" where
  "py_index xs x = length (takeWhile (\<lambda>y. y \<noteq> x) xs)"

definition seo_headers :: "ucd \<Rightarrow> table \<Rightarrow> ustr list" where
  "seo_headers U t = map (\<lambda>c. py_lower U (py_strip c)) (hd t)"

definition has_seo_header :: "ucd \<Rightarrow> table \<Rightarrow> bool" where
  "has_seo_header U t \<longleftrightarrow>
     t \<noteq> [] \<and> hd t \<noteq> []
     \<and> asc ''report attribute'' \<in> set (seo_headers U t) \<and> asc ''details'' \<in> set (seo_headers U t)"

definition attr_idx :: "ucd \<Rightarrow> table \<Rightarrow> nat" where
  "attr_idx U t = py_index (seo_headers U t) (asc ''report attribute'')"

definition details_idx :: "ucd \<Rightarrow> table \<Rightarrow> nat" where
  "details_idx U t = py_index (seo_headers U t) (asc ''details'')"

text \<open>The test on the attribute cell of a data row.\<close>

definition is_forecast_2030 :: "ucd \<Rightarrow> ustr \<Rightarrow> bool" where
  "is_forecast_2030 U cell =
     (let attr_raw = py_strip cell;
          attr = normalize_label U attr_raw;
          attr_lower = py_lower U attr_raw
      in ((contains (asc ''revenue forecast'') attr
             \<and> (contains (asc '' 2030'') attr \<or> contains (asc ''forecast in'') attr))
          \<or> (contains (asc ''revenue forecast'') attr_lower \<and> contains (asc ''2030'') attr_raw))
         \<or> ((contains (asc ''market size forecast'') attr_lower
               \<or> contains (asc ''market size'') attr_lower)
             \<and> contains (asc ''2030'') attr_raw))"

definition revenue_of :: "ucd \<Rightarrow> ustr \<Rightarrow> ustr" where
  "revenue_of U cell = py_strip (re_sub U IGNORECASE (rstr ''USD'') [TLit (asc ''$'')] (py_strip cell))"

text \<open>
  The loop over the data rows: \<open>Some v\<close> when a row passed the test and the loop was
  left with \<open>revenue_forecast = v\<close>, \<open>None\<close> when no row did.  \<open>row.cells[i]\<close> raises
  \<open>IndexError\<close> for a row with too few cells.
\<close>

fun seo_rows :: "ucd \<Rightarrow> nat \<Rightarrow> nat \<Rightarrow> ustr list list \<Rightarrow> py_error + ustr option" where
  "seo_rows U a d [] = Inr None"
| "seo_rows U a d (row # rows) =
     (if length row \<le> a \<or> length row \<le> d then Inl IndexError
      else if is_forecast_2030 U (row ! a) then Inr (Some (revenue_of U (row ! d)))
      else seo_rows U a d rows)"

text \<open>The loop over the tables, which ends with the value of \<open>revenue_forecast\<close>.\<close>

fun seo_tables :: "ucd \<Rightarrow> table list \<Rightarrow> py_error + ustr" where
  "seo_tables U [] = Inr []"
| "seo_tables U (t # ts) =
     (if has_seo_header U t then
        (case seo_rows U (attr_idx U t) (details_idx U t) (tl t) of
           Inl e \<Rightarrow> Inl e
         | Inr None \<Rightarrow> seo_tables U ts
         | Inr (Some revenue_forecast) \<Rightarrow>
             if revenue_forecast \<noteq> [] then Inr revenue_forecast else seo_tables U ts)
      else seo_tables U ts)"

definition title_name :: "ustr \<Rightarrow> ustr" where
  "title_name docx_path = py_replace (asc ''_'') (asc '' '') (file_stem docx_path)"

definition extract_seo_title :: "ucd \<Rightarrow> ustr \<Rightarrow> document \<Rightarrow> py_error + ustr" where
  "extract_seo_title U docx_path doc =
     (case seo_tables U (d_tables doc) of
        Inl e \<Rightarrow> Inl e
      | Inr revenue_forecast \<Rightarrow>
          if revenue_forecast \<noteq> []
          then Inr (title_name docx_path @ asc '' Size ('' @ revenue_forecast @ asc '') 2030'')
          else Inr (title_name docx_path))"

declare normalize_label_def [py_defs] py_index_def [py_defs] seo_headers_def [py_defs]
  has_seo_header_def [py_defs] attr_idx_def [py_defs] details_idx_def [py_defs]
  is_forecast_2030_def [py_defs] revenue_of_def [py_defs] title_name_def [py_defs]
  extract_seo_title_def [py_defs] file_stem_def [py_defs] basename_def [py_defs]
  splitext_root_def [py_defs]

subsection \<open>The forecast row\<close>

text \<open>A data row that has both cells and does not pass the test.\<close>

definition row_passed_over :: "ucd \<Rightarrow> table \<Rightarrow> ustr list \<Rightarrow> bool" where
  "row_passed_over U t row \<longleftrightarrow>
     attr_idx U t < length row \<and> details_idx U t < length row
     \<and> \<not> is_forecast_2030 U (row ! attr_idx U t)"

text \<open>A table that leaves \<open>revenue_forecast\<close> empty.\<close>

definition table_silent :: "ucd \<Rightarrow> table \<Rightarrow> bool" where
  "table_silent U t \<longleftrightarrow> \<not> has_seo_header U t \<or> list_all (row_passed_over U t) (tl t)"

lemma seo_rows_skip:
  "list_all (\<lambda>row. a < length row \<and> d < length row \<and> \<not> is_forecast_2030 U (row ! a)) skipped
   \<Longrightarrow> seo_rows U a d (skipped @ rows) = seo_rows U a d rows"
  by (induction skipped) auto

lemma seo_tables_skip:
  "list_all (table_silent U) pre \<Longrightarrow> seo_tables U (pre @ ts) = seo_tables U ts"
proof (induction pre)
  case Nil
  show ?case by simp
next
  case (Cons t pre)
  then have t: "table_silent U t" and pre: "list_all (table_silent U) pre" by simp_all
  show ?case
  proof (cases "has_seo_header U t")
    case True
    with t have "list_all (row_passed_over U t) (tl t)" by (simp add: table_silent_def)
    then have "seo_rows U (attr_idx U t) (details_idx U t) (tl t @ []) = Inr None"
      unfolding row_passed_over_def by (subst seo_rows_skip) simp_all
    with True Cons.IH [OF pre] show ?thesis by simp
  next
    case False
    with Cons.IH [OF pre] show ?thesis by simp
  qed
qed

definition forecast_row :: "ustr list" where
  "forecast_row = [asc ''Revenue Forecast in 2030'', asc ''USD 4.5 Billion'']"

definition seo_header_row :: "ustr list" where
  "seo_header_row = [asc ''Report Attribute'', asc ''Details'']"

lemma header_facts:
  assumes "hd t = seo_header_row" and "t \<noteq> []"
  shows "has_seo_header U t" and "attr_idx U t = 0" and "details_idx U t = 1"
  using assms by (simp_all add: seo_header_row_def py_defs cong: let_weak_cong)

lemma forecast_row_facts:
  "is_forecast_2030 U (asc ''Revenue Forecast in 2030'')"
  "revenue_of U (asc ''USD 4.5 Billion'') = asc ''$ 4.5 Billion''"
  by (simp_all add: py_defs cong: let_weak_cong)

text \<open>
  C7, as amended.  When the first table that sets the forecast has the header row
  \<open>["Report Attribute", "Details"]\<close> and the row
  \<open>["Revenue Forecast in 2030", "USD 4.5 Billion"]\<close> is its first data row that passes
  the test, the result is \<open><name> Size ($ 4.5 Billion) 2030\<close>: \<open>USD\<close> becomes \<open>$\<close> and
  the space after it stays.  When every table leaves the forecast empty, the result is
  the file name with underscores replaced by spaces.
\<close>

theorem extract_seo_title_forecast:
  "(d_tables doc = pre @ (seo_header_row # skipped @ forecast_row # rest) # post
      \<and> list_all (table_silent U) pre
      \<and> list_all (row_passed_over U (seo_header_row # skipped @ forecast_row # rest)) skipped
    \<longrightarrow> extract_seo_title U docx_path doc
          = Inr (title_name docx_path @ asc '' Size ($ 4.5 Billion) 2030''))
   \<and> (list_all (table_silent U) (d_tables doc)
    \<longrightarrow> extract_seo_title U docx_path doc = Inr (title_name docx_path))"
proof (intro conjI impI)
  let ?t = "seo_header_row # skipped @ forecast_row # rest"
  assume a: "d_tables doc = pre @ ?t # post \<and> list_all (table_silent U) pre
      \<and> list_all (row_passed_over U ?t) skipped"
  have h: "has_seo_header U ?t" "attr_idx U ?t = 0" "details_idx U ?t = 1"
    by (rule header_facts; simp)+
  from a have "list_all (\<lambda>row. 0 < length row \<and> 1 < length row \<and> \<not> is_forecast_2030 U (row ! 0)) skipped"
    by (auto simp: row_passed_over_def h list_all_iff)
  then have "seo_rows U 0 1 (skipped @ forecast_row # rest) = seo_rows U 0 1 (forecast_row # rest)"
    by (rule seo_rows_skip)
  also have "\<dots> = Inr (Some (asc ''$ 4.5 Billion''))"
    by (simp add: forecast_row_def forecast_row_facts)
  finally have rows: "seo_rows U 0 1 (skipped @ forecast_row # rest) = Inr (Some (asc ''$ 4.5 Billion''))" .
  have ne: "asc ''$ 4.5 Billion'' \<noteq> []" by (simp add: asc_def)
  have "seo_tables U (d_tables doc) = seo_tables U (?t # post)"
    using a by (simp add: seo_tables_skip)
  also have "\<dots> = Inr (asc ''$ 4.5 Billion'')"
    using h rows ne by simp
  finally show "extract_seo_title U docx_path doc
      = Inr (title_name docx_path @ asc '' Size ($ 4.5 Billion) 2030'')"
    using ne by (simp add: extract_seo_title_def asc_def)
next
  assume "list_all (table_silent U) (d_tables doc)"
  from seo_tables_skip [OF this, of "[]"]
  show "extract_seo_title U docx_path doc = Inr (title_name docx_path)"
    by (simp add: extract_seo_title_def)
qed

text \<open>The scenario of the claim, and a document with a table of another kind.\<close>

definition seo_doc :: document where
  "seo_doc = \<lparr>d_paragraphs = [],
     d_tables = [[seo_header_row, [asc ''Forecast Period'', asc ''2024 - 2030''], forecast_row]],
     d_rels = []\<rparr>"

definition seo_path :: ustr where
  "seo_path = asc ''/reports/Canned_Meat_Market.docx''"

definition other_doc :: document where
  "other_doc = \<lparr>d_paragraphs = [], d_tables = [[[asc ''Company'', asc ''Share'']]], d_rels = []\<rparr>"

theorem extract_seo_title_forecast_witness:
  "extract_seo_title ucd_caseless seo_path seo_doc
     = Inr (asc ''Canned Meat Market Size ($ 4.5 Billion) 2030'')
   \<and> extract_seo_title ucd_caseless seo_path other_doc = Inr (asc ''Canned Meat Market'')"
proof -
  have n: "title_name seo_path = asc ''Canned Meat Market''"
    by (simp add: seo_path_def py_defs cong: let_weak_cong)
  have 1: "d_tables seo_doc
      = [] @ (seo_header_row # [[asc ''Forecast Period'', asc ''2024 - 2030'']] @ forecast_row # []) # []"
    by (simp add: seo_doc_def)
  have 2: "list_all (row_passed_over ucd_caseless
             (seo_header_row # [[asc ''Forecast Period'', asc ''2024 - 2030'']] @ forecast_row # []))
             [[asc ''Forecast Period'', asc ''2024 - 2030'']]"
    by (simp add: row_passed_over_def seo_header_row_def py_defs cong: let_weak_cong)
  have 3: "list_all (table_silent ucd_caseless) (d_tables other_doc)"
    by (simp add: other_doc_def table_silent_def py_defs cong: let_weak_cong)
  from extract_seo_title_forecast
    [where U = ucd_caseless and doc = seo_doc and docx_path = seo_path and pre = "[]"
       and skipped = "[[asc ''Forecast Period'', asc ''2024 - 2030'']]" and rest = "[]" and post = "[]"]
    1 2
  have a: "extract_seo_title ucd_caseless seo_path seo_doc
     = Inr (asc ''Canned Meat Market Size ($ 4.5 Billion) 2030'')"
    by (simp add: n asc_def)
  from extract_seo_title_forecast
    [where U = ucd_caseless and doc = other_doc and docx_path = seo_path] 3
  have b: "extract_seo_title ucd_caseless seo_path other_doc = Inr (asc ''Canned Meat Market'')"
    by (simp add: n)
  from a b show ?thesis by simp
qed

text \<open>
  The claim as stated expects \<open>($4.5 Billion)\<close>, without the space that the
  substitution leaves after the dollar sign.
\<close>

theorem extract_seo_title_keeps_space:
  "extract_seo_title ucd_caseless seo_path seo_doc
     \<noteq> Inr (asc ''Canned Meat Market Size ($4.5 Billion) 2030'')"
proof -
  have "extract_seo_title ucd_caseless seo_path seo_doc
     = Inr (asc ''Canned Meat Market Size ($ 4.5 Billion) 2030'')"
    by (simp add: seo_doc_def seo_path_def seo_header_row_def forecast_row_def py_defs cong: let_weak_cong)
  then show ?thesis by (simp add: asc_def)
qed

section \<open>Table of contents\<close>

text \<open>The bullet characters the source tests for.\<close>

definition BULLET :: nat where "BULLET = 8226"
definition TRI_BULLET :: nat where "TRI_BULLET = 8227"
definition EN_DASH :: nat where "EN_DASH = 8211"
definition EM_DASH :: nat where "EM_DASH = 8212"
definition WHITE_CIRCLE :: nat where "WHITE_CIRCLE = 9675"
definition WHITE_BULLET :: nat where "WHITE_BULLET = 9702"
definition BLACK_SQUARE :: nat where "BLACK_SQUARE = 9642"
definition WHITE_SQUARE :: nat where "WHITE_SQUARE = 9643"

declare BULLET_def [py_defs] TRI_BULLET_def [py_defs] EN_DASH_def [py_defs] EM_DASH_def [py_defs]
  WHITE_CIRCLE_def [py_defs] WHITE_BULLET_def [py_defs] BLACK_SQUARE_def [py_defs]
  WHITE_SQUARE_def [py_defs]

text \<open>
  \<^verbatim>\<open>
  def is_list_item(para):
      pPr = para._p.pPr
      if pPr is not None and pPr.numPr is not None:
          return True
      return False
  \<close>
\<close>

definition is_list_item :: "para \<Rightarrow> bool" where
  "is_list_item p = p_numPr p"

text \<open>\<open>re.match(r'^\d+[\.\)]', text)\<close>, used as a truth value.\<close>

definition numbered :: "ucd \<Rightarrow> ustr \<Rightarrow> bool" where
  "numbered U text =
     (re_match U NOFLAGS (rseq [RBol, plus rdigit, RSet False [CChar 46, CChar 41]]) text \<noteq> None)"

text \<open>
  \<^verbatim>\<open>
  def get_list_style_type(para, text):
      if U+2022 in text or '*' in text: return "bullet"
      elif U+25CB in text or U+25E6 in text: return "circle"
      elif U+2013 in text or U+2014 in text: return "dash"
      elif re.match(r'^\d+[\.\)]', text): return "number"
      elif U+25AA in text or U+25AB in text: return "square"
      else: return "bullet"
  \<close>
\<close>

definition get_list_style_type :: "ucd \<Rightarrow> ustr \<Rightarrow> ustr" where
  "get_list_style_type U text =
     (if BULLET \<in> set text \<or> 42 \<in> set text then asc ''bullet''
      else if WHITE_CIRCLE \<in> set text \<or> WHITE_BULLET \<in> set text then asc ''circle''
      else if EN_DASH \<in> set text \<or> EM_DASH \<in> set text then asc ''dash''
      else if numbered U text then asc ''number''
      else if BLACK_SQUARE \<in> set text \<or> WHITE_SQUARE \<in> set text then asc ''square''
      else asc ''bullet'')"

text \<open>
  \<^verbatim>\<open>
  def is_main_level_item(para, text, parent_list_style):
      current_style = get_list_style_type(para, text)
      if parent_list_style is None: return True
      if current_style != parent_list_style: return True
      if '<b>' in text or '<strong>' in text:
          if not text.strip().endswith(':'): return True
      main_level_patterns = ["Benchmarking of Market Leaders",
          "Recent Product Developments and Approvals", "Strategic Collaborations and M&A",
          "Market Share Analysis", "Competitive Strategies"]
      for pattern in main_level_patterns:
          if pattern in text: return True
      return False
  \<close>
\<close>

definition main_level_patterns :: "ustr list" where
  "main_level_patterns =
     [asc ''Benchmarking of Market Leaders'', asc ''Recent Product Developments and Approvals'',
      asc ''Strategic Collaborations and M&A'', asc ''Market Share Analysis'',
      asc ''Competitive Strategies'']"

definition is_main_level_item :: "ucd \<Rightarrow> ustr \<Rightarrow> ustr option \<Rightarrow> bool" where
  "is_main_level_item U text parent_list_style =
     (case parent_list_style of
        None \<Rightarrow> True
      | Some parent \<Rightarrow>
          get_list_style_type U text \<noteq> parent
          \<or> ((contains (asc ''<b>'') text \<or> contains (asc ''<strong>'') text)
              \<and> \<not> endswith (py_strip text) (asc '':''))
          \<or> list_ex (\<lambda>pattern. contains pattern text) main_level_patterns)"

text \<open>The tests on a paragraph that both functions below make.\<close>

definition any_bold_run :: "para \<Rightarrow> bool" where
  "any_bold_run p = list_ex (\<lambda>run. py_strip (r_text run) \<noteq> [] \<and> r_bold run) (p_runs p)"

definition has_bold_tag :: "ustr \<Rightarrow> bool" where
  "has_bold_tag text \<longleftrightarrow> contains (asc ''<strong>'') text \<or> contains (asc ''<b>'') text"

text \<open>
  The characters \<^verbatim>\<open>determine_toc_logic\<close> looks for; the list has the hyphen, the lists
  of \<^verbatim>\<open>extract_toc\<close> do not.
\<close>

definition logic_list_chars :: "nat list" where
  "logic_list_chars = [BULLET, 45, EN_DASH, WHITE_CIRCLE, WHITE_BULLET, TRI_BULLET, BLACK_SQUARE,
                       WHITE_SQUARE, 42, 43]"

definition toc_bullet_chars :: "nat list" where
  "toc_bullet_chars = [BULLET, EN_DASH, WHITE_CIRCLE, WHITE_BULLET, TRI_BULLET, BLACK_SQUARE,
                       WHITE_SQUARE, 42, 43]"

definition logic_in_list :: "ucd \<Rightarrow> para \<Rightarrow> ustr \<Rightarrow> bool" where
  "logic_in_list U p text \<longleftrightarrow>
     is_list_item p \<or> list_ex (\<lambda>c. c \<in> set text) logic_list_chars \<or> numbered U text"

text \<open>
  \<^verbatim>\<open>determine_toc_logic\<close>: the loop keeps whether an ``Executive Summary'' paragraph was
  seen, its two flags, the count of the paragraphs after it and the two flags of the
  first of them.
\<close>

record logic_state =
  found_executive_summary :: bool
  executive_summary_bold :: bool
  executive_summary_in_list :: bool
  para_count :: nat
  first_line_after_bold :: bool
  first_line_after_in_list :: bool

definition logic_step :: "ucd \<Rightarrow> logic_state \<Rightarrow> para \<Rightarrow> logic_state" where
  "logic_step U st p =
     (let text = py_strip (p_text p) in
      if text = [] then st
      else if contains (asc ''Executive Summary'') text then
        st\<lparr>found_executive_summary := True,
           executive_summary_bold := any_bold_run p \<or> has_bold_tag text,
           executive_summary_in_list := logic_in_list U p text\<rparr>
      else if \<not> found_executive_summary st then st
      else if para_count st + 1 = 1 then
        st\<lparr>para_count := para_count st + 1,
           first_line_after_bold := any_bold_run p \<or> has_bold_tag text,
           first_line_after_in_list := logic_in_list U p text\<rparr>
      else st\<lparr>para_count := para_count st + 1\<rparr>)"

definition determine_toc_logic :: "ucd \<Rightarrow> document \<Rightarrow> nat" where
  "determine_toc_logic U doc =
     (let st = foldl (logic_step U)
                 \<lparr>found_executive_summary = False, executive_summary_bold = False,
                  executive_summary_in_list = False, para_count = 0,
                  first_line_after_bold = False, first_line_after_in_list = False\<rparr>
                 (d_paragraphs doc)
      in if 1 \<le> para_count st then
           (if executive_summary_bold st \<and> executive_summary_in_list st
               \<and> first_line_after_in_list st \<and> \<not> first_line_after_bold st then 2
            else if executive_summary_bold st \<and> first_line_after_in_list st
               \<and> \<not> first_line_after_bold st then 1
            else if executive_summary_bold st \<and> first_line_after_in_list st
               \<and> first_line_after_bold st then 3
            else if executive_summary_bold st \<and> first_line_after_bold st
               \<and> \<not> first_line_after_in_list st then 3
            else 1)
         else 1)"

declare is_list_item_def [py_defs] numbered_def [py_defs] get_list_style_type_def [py_defs]
  main_level_patterns_def [py_defs] is_main_level_item_def [py_defs] any_bold_run_def [py_defs]
  has_bold_tag_def [py_defs] logic_list_chars_def [py_defs] toc_bullet_chars_def [py_defs]
  logic_in_list_def [py_defs] logic_step_def [py_defs] determine_toc_logic_def [py_defs]

subsection \<open>The structurer of \<^verbatim>\<open>extract_toc\<close>\<close>

text \<open>
  The local variables of \<^verbatim>\<open>extract_toc\<close> that the paragraph loop updates.
  \<open>formatted_content\<close> is \<open>None\<close> until the first assignment to it: reading it before
  raises \<open>UnboundLocalError\<close>.
\<close>

record toc_state =
  html_output :: "ustr list"
  capture :: bool
  inside_list :: bool
  list_depth :: nat
  parent_list_style :: "ustr option"
  current_list_style :: "ustr option"
  formatted_content :: "ustr option"

definition toc_init :: toc_state where
  "toc_init = \<lparr>html_output = [], capture = False, inside_list = False, list_depth = 0,
               parent_list_style = None, current_list_style = None, formatted_content = None\<rparr>"

text \<open>\<open>s.split(c)\<close> for a separator of one character.\<close>

fun split_on :: "nat \<Rightarrow> ustr \<Rightarrow> ustr list" where
  "split_on c [] = [[]]"
| "split_on c (x # xs) =
     (if x = c then [] # split_on c xs
      else (case split_on c xs of p # ps \<Rightarrow> (x # p) # ps | [] \<Rightarrow> [[x]]))"

text \<open>
  \<^verbatim>\<open>
  def clean_heading(text):
      text = remove_emojis(text.strip())
      text = re.sub(r'^\d+(\.\d+)*[\.\)]\s*', '', text)
      text = re.sub(r'^[U+2022\-U+2013]\s*', '', text)
      text = re.sub(r'\s+', ' ', text)
      return text.strip()
  \<close>
\<close>

definition clean_heading :: "ucd \<Rightarrow> ustr \<Rightarrow> ustr" where
  "clean_heading U text =
     py_strip
       (re_sub U NOFLAGS (plus rspace) [TLit (asc '' '')]
         (re_sub U NOFLAGS (rseq [RBol, RSet False [CChar BULLET, CChar 45, CChar EN_DASH], star rspace]) []
           (re_sub U NOFLAGS
              (rseq [RBol, plus rdigit, star (RGroup 1 (rseq [RChar 46, plus rdigit])),
                     RSet False [CChar 46, CChar 41], star rspace]) []
              (remove_emojis (py_strip text)))))"

definition is_bold_text :: "para \<Rightarrow> bool" where
  "is_bold_text p \<longleftrightarrow>
     p_runs p \<noteq> [] \<and> (any_bold_run p \<or> has_bold_tag (py_strip (p_text p)))"

text \<open>\<^verbatim>\<open>runs_to_html_with_links\<close> has the body of the first \<^verbatim>\<open>runs_to_html\<close>.\<close>

definition runs_to_html_with_links :: "(ustr \<times> ustr) list \<Rightarrow> run list \<Rightarrow> ustr" where
  "runs_to_html_with_links rs runs =
     py_strip (py_join (asc '' '')
       (concat (map (\<lambda>run. let txt = remove_emojis (py_strip (r_text run))
                           in if txt = [] then [] else [link_part rs run txt]) runs)))"

lemma replicate_numeral [py_defs]:
  "replicate (numeral k) x = x # replicate (pred_numeral k) x"
  by (simp add: numeral_eq_Suc)

definition emit :: "ustr list \<Rightarrow> toc_state \<Rightarrow> toc_state" where
  "emit lines st = st\<lparr>html_output := html_output st @ lines\<rparr>"

text \<open>
  \<^verbatim>\<open>
  if inside_list:
      for _ in range(list_depth):
          html_output.append("</ul>")
      inside_list = False
      list_depth = 0
  \<close>
\<close>

definition close_lists :: "toc_state \<Rightarrow> toc_state" where
  "close_lists st =
     (if inside_list st
      then (emit (replicate (list_depth st) (asc ''</ul>'')) st)\<lparr>inside_list := False, list_depth := 0\<rparr>
      else st)"

text \<open>
  \<^verbatim>\<open>
  html_output.append("<ul>")
  html_output.append(f"<li><p><strong>{formatted_content}</strong></p>")
  html_output.append("<ul>")
  inside_list = True
  list_depth = 2
  \<close>
\<close>

definition open_parent :: "ustr \<Rightarrow> toc_state \<Rightarrow> toc_state" where
  "open_parent fc st =
     (emit [asc ''<ul>'', asc ''<li><p><strong>'' @ fc @ asc ''</strong></p>'', asc ''<ul>''] st)
       \<lparr>inside_list := True, list_depth := 2\<rparr>"

text \<open>
  \<^verbatim>\<open>
  if not inside_list:
      html_output.append("<ul>")
      inside_list = True
      list_depth = 1
  \<close>
\<close>

definition open_main :: "toc_state \<Rightarrow> toc_state" where
  "open_main st =
     (if \<not> inside_list st then (emit [asc ''<ul>''] st)\<lparr>inside_list := True, list_depth := 1\<rparr>
      else st)"

definition list_item :: "ustr \<Rightarrow> ustr" where
  "list_item fc = asc ''<li><p>'' @ fc @ asc ''</p></li>''"

definition strong_item :: "ustr \<Rightarrow> ustr" where
  "strong_item fc = asc ''<li><p><strong>'' @ fc @ asc ''</strong></p>''"

definition heading_line :: "ustr \<Rightarrow> ustr" where
  "heading_line h = [10] @ asc ''<strong>'' @ h @ asc ''</strong>''"

definition strip_b :: "ustr \<Rightarrow> ustr" where
  "strip_b h = py_replace (asc ''</b>'') [] (py_replace (asc ''<b>'') [] h)"

text \<open>\<^verbatim>\<open>"List of Figures" not in "\n".join(html_output[-10:])\<close>, negated.\<close>

definition recent_figures :: "toc_state \<Rightarrow> bool" where
  "recent_figures st \<longleftrightarrow>
     contains (asc ''List of Figures'')
       (py_join [10] (drop (length (html_output st) - 10) (html_output st)))"

text \<open>\<^verbatim>\<open>":" in formatted_content and formatted_content.strip().endswith(":")\<close>.\<close>

definition ends_with_colon :: "ustr \<Rightarrow> bool" where
  "ends_with_colon fc \<longleftrightarrow> 58 \<in> set fc \<and> endswith (py_strip fc) (asc '':'')"

definition has_bullet_chars :: "ustr \<Rightarrow> bool" where
  "has_bullet_chars text = list_ex (\<lambda>c. c \<in> set text) toc_bullet_chars"

text \<open>The heading of a bold paragraph: \<^verbatim>\<open>clean_heading\<close>, \<^verbatim>\<open><b>\<close> tags removed.\<close>

definition bold_heading :: "ucd \<Rightarrow> ustr \<Rightarrow> toc_state \<Rightarrow> toc_state" where
  "bold_heading U text st =
     (let heading_text = clean_heading U text in
      if heading_text \<noteq> [] then emit [heading_line (strip_b heading_text)] st else st)"

text \<open>
  A bold paragraph with inline bullets: the part before the first bullet is the heading,
  the others are the items of a list that is opened and closed at once.
\<close>

definition bullet_parts :: "ustr \<Rightarrow> ustr list" where
  "bullet_parts text = filter (\<lambda>p. p \<noteq> []) (map py_strip (split_on BULLET text))"

definition bullet_items :: "ustr list \<Rightarrow> toc_state \<Rightarrow> toc_state" where
  "bullet_items bullets st =
     (if bullets \<noteq> []
      then emit ([asc ''<ul>'']
                 @ map list_item (filter (\<lambda>i. i \<noteq> [])
                                   (map (\<lambda>item. py_strip (remove_emojis item)) bullets))
                 @ [asc ''</ul>'']) st
      else st)"

text \<open>The paragraph with ``Executive Summary'' that starts the capture (lines 479 to 504).\<close>

definition summary_step :: "ucd \<Rightarrow> para \<Rightarrow> ustr \<Rightarrow> toc_state \<Rightarrow> toc_state" where
  "summary_step U p text st =
     (let st = st\<lparr>capture := True\<rparr> in
      if is_bold_text p then
        (if BULLET \<in> set text then
           (case bullet_parts text of
              [] \<Rightarrow> st
            | first # bullets \<Rightarrow> bullet_items bullets (emit [heading_line (clean_heading U first)] st))
         else bold_heading U text st)
      else st)"

text \<open>
  The style of a list item in variants 1 and 2 (lines 583 to 592 and 721 to 730).
\<close>

definition item_style :: "ucd \<Rightarrow> ustr \<Rightarrow> ustr" where
  "item_style U text =
     (if has_bullet_chars text then
        (if BULLET \<in> set text \<or> 42 \<in> set text then asc ''bullet''
         else if WHITE_CIRCLE \<in> set text \<or> WHITE_BULLET \<in> set text then asc ''circle''
         else if EN_DASH \<in> set text then asc ''dash''
         else asc ''bullet'')
      else if numbered U text then asc ''number''
      else asc ''bullet'')"

text \<open>
  A list item that is not bold, in variants 1 and 2 (lines 578 to 656 and 716 to 797).
  The variants differ in the tests \<open>is_parent_item\<close> and \<open>is_new_main_section\<close>.
\<close>

definition nested_item ::
  "ucd \<Rightarrow> ustr \<Rightarrow> ustr \<Rightarrow> bool \<Rightarrow> bool \<Rightarrow> toc_state \<Rightarrow> toc_state" where
  "nested_item U text fc is_parent_item is_new_main_section st0 =
     (let cur = item_style U text;
          st = st0\<lparr>formatted_content := Some fc, current_list_style := Some cur\<rparr>
      in if is_parent_item then
           (open_parent fc (close_lists st))\<lparr>parent_list_style := Some cur\<rparr>
         else if is_new_main_section then
           (let st1 = (if inside_list st \<and> 1 < list_depth st
                       then (emit [asc ''</ul>'', asc ''</li>'', asc ''</ul>''] st)
                              \<lparr>inside_list := False, list_depth := 0\<rparr>
                       else st)
            in emit [list_item fc] (open_main st1))
         else
           (let st1 = (if is_main_level_item U fc (parent_list_style st)
                          \<and> inside_list st \<and> 1 < list_depth st
                       then (emit [asc ''</ul>'', asc ''</li>''] st)
                              \<lparr>list_depth := 1, parent_list_style := Some cur\<rparr>
                       else st);
                st2 = (if \<not> inside_list st1
                       then (emit [asc ''<ul>''] st1)
                              \<lparr>inside_list := True, list_depth := 1, parent_list_style := Some cur\<rparr>
                       else st1)
            in emit [list_item fc] st2))"

text \<open>
  A paragraph that is neither bold nor a list item, in variants 1 and 2 (lines 657 to
  684 and 798 to 825).  The first test reads \<open>formatted_content\<close> as an earlier paragraph
  left it.
\<close>

definition plain_step :: "(ustr \<times> ustr) list \<Rightarrow> para \<Rightarrow> toc_state \<Rightarrow> py_error + toc_state" where
  "plain_step rs p st =
     (case formatted_content st of
        None \<Rightarrow> Inl UnboundLocalError
      | Some fc \<Rightarrow>
          if ends_with_colon fc then Inr (open_parent fc (close_lists st))
          else
            (let st1 = close_lists st;
                 fc' = runs_to_html_with_links rs (p_runs p);
                 st2 = st1\<lparr>formatted_content := Some fc'\<rparr>
             in Inr (if fc' \<noteq> [] then emit [asc ''<p>'' @ fc' @ asc ''</p>''] st2 else st2)))"

definition logic1_step :: "ucd \<Rightarrow> (ustr \<times> ustr) list \<Rightarrow> para \<Rightarrow> ustr \<Rightarrow> toc_state \<Rightarrow> py_error + toc_state" where
  "logic1_step U rs p text st =
     (let is_nested_list = (is_list_item p \<or> has_bullet_chars text \<or> numbered U text) in
      if is_bold_text p then
        (if is_nested_list then
           (let fc = runs_to_html_with_links rs (p_runs p);
                st1 = st\<lparr>formatted_content := Some fc\<rparr>
            in if ends_with_colon fc \<and> \<not> recent_figures st1
               then Inr (open_parent fc (close_lists st1))
               else Inr (emit [list_item fc] (open_main st1)))
         else Inr (bold_heading U text (close_lists st)))
      else if is_nested_list then
        (let fc = runs_to_html_with_links rs (p_runs p)
         in Inr (nested_item U text fc
                   (ends_with_colon fc \<and> \<not> recent_figures st)
                   (contains (asc ''Strategy Analysis:'') fc) st))
      else plain_step rs p st)"

definition logic2_step :: "ucd \<Rightarrow> (ustr \<times> ustr) list \<Rightarrow> para \<Rightarrow> ustr \<Rightarrow> toc_state \<Rightarrow> py_error + toc_state" where
  "logic2_step U rs p text st =
     (if is_bold_text p then Inr (bold_heading U text (close_lists st))
      else if is_list_item p \<or> has_bullet_chars text \<or> numbered U text then
        (let fc = runs_to_html_with_links rs (p_runs p)
         in Inr (nested_item U text fc
                   ((ends_with_colon fc \<or> contains (asc ''Leading Companies'') fc)
                    \<and> \<not> recent_figures st)
                   (contains (asc ''Strategy Analysis:'') fc
                    \<or> contains (asc ''Market Share by Key Players'') fc
                    \<or> contains (asc ''Competitive Strategies and Positioning'') fc) st))
      else plain_step rs p st)"

text \<open>
  Variant 3 (lines 827 to 1020).  The list level it reads from the paragraph is only
  printed, and \<open>current_list_style\<close> is never assigned in this variant.
\<close>

definition regional_analysis :: "ustr \<Rightarrow> bool" where
  "regional_analysis fc \<longleftrightarrow>
     contains (asc ''Psychiatric Digital Biomarkers Market Analysis'') fc
     \<and> (contains (asc ''North America'') fc \<or> contains (asc ''Europe'') fc
        \<or> contains (asc ''Asia-Pacific'') fc \<or> contains (asc ''Latin America'') fc
        \<or> contains (asc ''Middle East'') fc)"

definition numbered3 :: "ucd \<Rightarrow> ustr \<Rightarrow> bool" where
  "numbered3 U text \<longleftrightarrow>
     re_match U NOFLAGS (rseq [RBol, plus rdigit, RSet False [CChar 46], RChar 41]) text \<noteq> None
     \<or> re_match U NOFLAGS (rseq [RBol, plus rdigit, RSet False [CChar 46, CChar 41]]) text \<noteq> None"

definition logic3_item :: "ucd \<Rightarrow> ustr \<Rightarrow> toc_state \<Rightarrow> toc_state" where
  "logic3_item U fc0 st0 =
     (let fc = py_replace (asc ''</strong>'') []
                 (py_replace (asc ''<strong>'') []
                   (py_replace (asc ''</b>'') [] (py_replace (asc ''<b>'') [] fc0)));
          st = st0\<lparr>formatted_content := Some fc\<rparr>
      in if (ends_with_colon fc \<or> regional_analysis fc) \<and> \<not> recent_figures st then
           (open_parent fc (close_lists st))\<lparr>parent_list_style := current_list_style st\<rparr>
         else if ends_with_colon fc \<and> \<not> recent_figures st then
           (if inside_list st \<and> 1 < list_depth st
            then (emit [strong_item fc, asc ''<ul>''] st)\<lparr>list_depth := 3\<rparr>
            else emit [list_item fc] (open_main st))
         else if contains (asc ''Country-Level Breakdown:'') fc then
           (emit [strong_item fc, asc ''<ul>''] (open_main st))\<lparr>list_depth := 2\<rparr>
         else
           (let st1 = (if is_main_level_item U fc (parent_list_style st)
                          \<and> inside_list st \<and> 1 < list_depth st
                       then (emit [asc ''</ul>'', asc ''</li>''] st)
                              \<lparr>list_depth := 1, parent_list_style := current_list_style st\<rparr>
                       else st);
                st2 = (if \<not> inside_list st1
                       then (emit [asc ''<ul>''] st1)
                              \<lparr>inside_list := True, list_depth := 1,
                               parent_list_style := current_list_style st1\<rparr>
                       else st1)
            in emit [list_item fc] st2))"

definition logic3_step :: "ucd \<Rightarrow> (ustr \<times> ustr) list \<Rightarrow> para \<Rightarrow> ustr \<Rightarrow> toc_state \<Rightarrow> toc_state" where
  "logic3_step U rs p text st0 =
     (let fc = runs_to_html_with_links rs (p_runs p);
          st = st0\<lparr>formatted_content := Some fc\<rparr>;
          is_list_item_detected = (is_list_item p \<or> has_bullet_chars text \<or> numbered3 U text)
      in if is_bold_text p \<and> BULLET \<in> set text then
           (let st1 = close_lists st in
            case bullet_parts text of
              [] \<Rightarrow> st1
            | first # bullets \<Rightarrow>
                bullet_items bullets
                  (let heading_text = clean_heading U first
                   in if heading_text \<noteq> [] then emit [heading_line heading_text] st1 else st1))
         else if is_list_item_detected then logic3_item U fc st
         else if is_bold_text p then
           (let st1 = close_lists st; heading_text = clean_heading U text
            in if heading_text \<noteq> [] then emit [heading_line heading_text] st1 else st1)
         else if ends_with_colon fc \<and> \<not> contains (asc ''Country-Level Breakdown:'') fc then
           open_parent fc (close_lists st)
         else
           (let st1 = close_lists st
            in if fc \<noteq> [] then emit [asc ''<p>'' @ fc @ asc ''</p>''] st1 else st1))"

text \<open>One round of the paragraph loop (lines 469 to 1020).\<close>

definition toc_step :: "ucd \<Rightarrow> nat \<Rightarrow> (ustr \<times> ustr) list \<Rightarrow> para \<Rightarrow> toc_state \<Rightarrow> py_error + toc_state" where
  "toc_step U logic_type rs p st =
     (let text = py_strip (p_text p) in
      if text = [] then Inr st
      else if \<not> capture st \<and> contains (asc ''Executive Summary'') text
        then Inr (summary_step U p text st)
      else if \<not> capture st then Inr st
      else if logic_type = 1 then logic1_step U rs p text st
      else if logic_type = 2 then logic2_step U rs p text st
      else if logic_type = 3 then Inr (logic3_step U rs p text st)
      else Inr st)"

fun toc_loop :: "ucd \<Rightarrow> nat \<Rightarrow> (ustr \<times> ustr) list \<Rightarrow> para list \<Rightarrow> toc_state \<Rightarrow> py_error + toc_state" where
  "toc_loop U logic_type rs [] st = Inr st"
| "toc_loop U logic_type rs (p # ps) st =
     (case toc_step U logic_type rs p st of
        Inl e \<Rightarrow> Inl e
      | Inr st' \<Rightarrow> toc_loop U logic_type rs ps st')"

text \<open>
  \<^verbatim>\<open>
  if inside_list:
      for _ in range(list_depth):
          html_output.append("</ul>")
  return "\n".join(html_output)
  \<close>
\<close>

definition extract_toc :: "ucd \<Rightarrow> document \<Rightarrow> py_error + ustr" where
  "extract_toc U doc =
     (case toc_loop U (determine_toc_logic U doc) (d_rels doc) (d_paragraphs doc) toc_init of
        Inl e \<Rightarrow> Inl e
      | Inr st \<Rightarrow> Inr (py_join [10] (html_output (close_lists st))))"

declare toc_init_def [py_defs] clean_heading_def [py_defs] is_bold_text_def [py_defs]
  runs_to_html_with_links_def [py_defs] emit_def [py_defs] close_lists_def [py_defs]
  open_parent_def [py_defs] open_main_def [py_defs] list_item_def [py_defs]
  strong_item_def [py_defs] heading_line_def [py_defs] strip_b_def [py_defs]
  recent_figures_def [py_defs] ends_with_colon_def [py_defs] has_bullet_chars_def [py_defs]
  bold_heading_def [py_defs] bullet_parts_def [py_defs] bullet_items_def [py_defs]
  summary_step_def [py_defs] item_style_def [py_defs] nested_item_def [py_defs]
  plain_step_def [py_defs] logic1_step_def [py_defs] logic2_step_def [py_defs]
  regional_analysis_def [py_defs] numbered3_def [py_defs] logic3_item_def [py_defs]
  logic3_step_def [py_defs] toc_step_def [py_defs] extract_toc_def [py_defs]

subsection \<open>List tokens in the output\<close>

text \<open>\<open>s.count(sub)\<close>: the occurrences of \<open>sub\<close> in \<open>s\<close>, from the left, not overlapping.\<close>

fun count_sub :: "ustr \<Rightarrow> ustr \<Rightarrow> nat" where
  "count_sub sub [] = 0"
| "count_sub sub (x # xs) =
     (if sub \<noteq> [] \<and> prefix sub (x # xs)
      then Suc (count_sub sub (drop (length sub) (x # xs)))
      else count_sub sub xs)"

text \<open>
  A document of variant 3: a bold ``Executive Summary'', a bold heading, then two list
  items, the second being a ``Country-Level Breakdown:'' line that names its countries.
\<close>

definition text_para :: "string \<Rightarrow> bool \<Rightarrow> bool \<Rightarrow> para" where
  "text_para s bold in_list =
     \<lparr>p_text = asc s,
      p_runs = [\<lparr>r_text = asc s, r_bold = bold, r_italic = False, r_link = NoLink, r_br = False\<rparr>],
      p_style = asc ''Normal'', p_numPr = in_list, p_ilvl = (if in_list then Some 0 else None)\<rparr>"

definition country_doc :: document where
  "country_doc = \<lparr>d_paragraphs =
       [text_para ''Executive Summary'' True False,
        text_para ''Market Overview'' True False,
        text_para ''Regional Analysis:'' False True,
        text_para ''Country-Level Breakdown: US, Canada'' False True],
     d_tables = [], d_rels = []\<rparr>"

definition country_toc :: "ustr list" where
  "country_toc =
     [[10] @ asc ''<strong>Executive Summary</strong>'',
      [10] @ asc ''<strong>Market Overview</strong>'',
      asc ''<ul>'',
      asc ''<li><p><strong>Regional Analysis:</strong></p>'',
      asc ''<ul>'',
      asc ''<li><p><strong>Country-Level Breakdown: US, Canada</strong></p>'',
      asc ''<ul>'',
      asc ''</ul>'',
      asc ''</ul>'']"

lemma country_doc_logic: "determine_toc_logic ucd_caseless country_doc = 3"
  by (simp add: country_doc_def text_para_def py_defs cong: let_weak_cong)

text \<open>
  C1.  The claim is that the output of \<^verbatim>\<open>extract_toc\<close> has as many \<^verbatim>\<open><ul>\<close> as
  \<^verbatim>\<open></ul>\<close>.  For the document above it has three and two: the ``Country-Level
  Breakdown:'' branch opens a third list and sets \<open>list_depth\<close> to 2.
\<close>

theorem extract_toc_unbalanced:
  "extract_toc ucd_caseless country_doc = Inr (py_join [10] country_toc)
   \<and> count_sub (asc ''<ul>'') (py_join [10] country_toc) = 3
   \<and> count_sub (asc ''</ul>'') (py_join [10] country_toc) = 2"
proof -
  have "extract_toc ucd_caseless country_doc = Inr (py_join [10] country_toc)"
    by (simp add: extract_toc_def country_doc_logic)
       (simp add: country_doc_def text_para_def country_toc_def py_defs cong: let_weak_cong)
  moreover have "count_sub (asc ''<ul>'') (py_join [10] country_toc) = 3"
    by (simp add: country_toc_def asc_def)
  moreover have "count_sub (asc ''</ul>'') (py_join [10] country_toc) = 2"
    by (simp add: country_toc_def asc_def)
  ultimately show ?thesis by simp
qed

text \<open>
  In variants 1 and 2 a plain paragraph right after ``Executive Summary'' reads
  \<open>formatted_content\<close> before anything was assigned to it.
\<close>

definition plain_doc :: document where
  "plain_doc = \<lparr>d_paragraphs =
       [text_para ''Executive Summary'' False False, text_para ''The market grew.'' False False],
     d_tables = [], d_rels = []\<rparr>"

lemma extract_toc_unbound: "extract_toc ucd_caseless plain_doc = Inl UnboundLocalError"
  by (simp add: plain_doc_def text_para_def py_defs cong: let_weak_cong)

section \<open>More of Python's strings\<close>

text \<open>
  Case conversion.  On ASCII text \<open>upper\<close>, \<open>title\<close>, \<open>islower\<close> and \<open>isupper\<close> are
  written out; for other text they are taken from the Unicode database, a second
  parameter record.
\<close>

record ucd_case =
  upper_na :: "ustr \<Rightarrow> ustr"
  title_na :: "ustr \<Rightarrow> ustr"
  islower_na :: "nat \<Rightarrow> bool"
  isupper_na :: "nat \<Rightarrow> bool"

definition ascii_upper :: "nat \<Rightarrow> nat" where
  "ascii_upper c = (if is_ascii_lower c then c - 32 else c)"

definition py_upper :: "ucd_case \<Rightarrow> ustr \<Rightarrow> ustr" where
  "py_upper C s = (if list_all (\<lambda>c. c < 128) s then map ascii_upper s else upper_na C s)"

text \<open>
  \<open>s.title()\<close>: a cased character is put in upper case when the character before it is
  not cased, in lower case otherwise.
\<close>

fun title_scan :: "bool \<Rightarrow> ustr \<Rightarrow> ustr" where
  "title_scan prev [] = []"
| "title_scan prev (c # cs) =
     (if prev then ascii_lower c else ascii_upper c)
     # title_scan (is_ascii_upper c \<or> is_ascii_lower c) cs"

definition py_title :: "ucd_case \<Rightarrow> ustr \<Rightarrow> ustr" where
  "py_title C s = (if list_all (\<lambda>c. c < 128) s then title_scan False s else title_na C s)"

text \<open>\<open>c.islower()\<close> and \<open>c.isupper()\<close> for a string of one character.\<close>

definition char_islower :: "ucd_case \<Rightarrow> nat \<Rightarrow> bool" where
  "char_islower C c = (if c < 128 then is_ascii_lower c else islower_na C c)"

definition char_isupper :: "ucd_case \<Rightarrow> nat \<Rightarrow> bool" where
  "char_isupper C c = (if c < 128 then is_ascii_upper c else isupper_na C c)"

text \<open>\<open>s[0].islower()\<close> and \<open>s[0].isupper()\<close>, read only where \<open>s\<close> is not empty.\<close>

definition starts_lower :: "ucd_case \<Rightarrow> ustr \<Rightarrow> bool" where
  "starts_lower C s = (case s of [] \<Rightarrow> False | c # _ \<Rightarrow> char_islower C c)"

definition starts_upper :: "ucd_case \<Rightarrow> ustr \<Rightarrow> bool" where
  "starts_upper C s = (case s of [] \<Rightarrow> False | c # _ \<Rightarrow> char_isupper C c)"

text \<open>\<open>s[0].upper() + s[1:]\<close>.\<close>

definition cap_first :: "ucd_case \<Rightarrow> ustr \<Rightarrow> ustr" where
  "cap_first C s = (case s of [] \<Rightarrow> [] | c # cs \<Rightarrow> py_upper C [c] @ cs)"

text \<open>
  The database for texts whose non-ASCII code points have no case (dashes, bullets,
  quotation marks).
\<close>

definition case_ascii :: ucd_case where
  "case_ascii = \<lparr>upper_na = map ascii_upper, title_na = title_scan False,
                  islower_na = (\<lambda>c. False), isupper_na = (\<lambda>c. False)\<rparr>"

text \<open>\<open>s.split(sep)\<close> for a non-empty \<open>sep\<close>; \<open>cur\<close> is the piece being read.\<close>

fun split_at :: "ustr \<Rightarrow> ustr \<Rightarrow> ustr \<Rightarrow> ustr list" where
  "split_at sep cur [] = [cur]"
| "split_at sep cur (x # xs) =
     (if sep \<noteq> [] \<and> prefix sep (x # xs)
      then cur # split_at sep [] (drop (length sep) (x # xs))
      else split_at sep (cur @ [x]) xs)"

definition py_split :: "ustr \<Rightarrow> ustr \<Rightarrow> ustr list" where
  "py_split sep s = split_at sep [] s"

text \<open>
  \<open>s.split(sep, 1)\<close>: the text before the first \<open>sep\<close> and the text after it, or \<open>None\<close>
  when \<open>sep\<close> does not occur (the list then has the one element \<open>s\<close>).
\<close>

fun find_sep :: "ustr \<Rightarrow> ustr \<Rightarrow> ustr \<Rightarrow> (ustr \<times> ustr) option" where
  "find_sep sep cur [] = None"
| "find_sep sep cur (x # xs) =
     (if prefix sep (x # xs) then Some (cur, drop (length sep) (x # xs))
      else find_sep sep (cur @ [x]) xs)"

definition split_once :: "ustr \<Rightarrow> ustr \<Rightarrow> (ustr \<times> ustr) option" where
  "split_once sep s = find_sep sep [] s"

text \<open>\<open>s.split(sep)[0]\<close>.\<close>

definition before_sep :: "ustr \<Rightarrow> ustr \<Rightarrow> ustr" where
  "before_sep sep s = (case split_once sep s of None \<Rightarrow> s | Some (a, b) \<Rightarrow> a)"

text \<open>\<open>s.split()\<close>: the maximal runs of characters that are not whitespace.\<close>

fun split_ws :: "ustr \<Rightarrow> ustr \<Rightarrow> ustr list" where
  "split_ws cur [] = (if cur = [] then [] else [cur])"
| "split_ws cur (x # xs) =
     (if is_space x then (if cur = [] then split_ws [] xs else cur # split_ws [] xs)
      else split_ws (cur @ [x]) xs)"

definition py_words :: "ustr \<Rightarrow> ustr list" where
  "py_words s = split_ws [] s"

text \<open>\<open>any(p in s for p in ps)\<close> and \<open>s.startswith(tuple(ps))\<close>.\<close>

definition contains_any :: "string list \<Rightarrow> ustr \<Rightarrow> bool" where
  "contains_any ps s = list_ex (\<lambda>p. contains (asc p) s) ps"

definition startswith_any :: "string list \<Rightarrow> ustr \<Rightarrow> bool" where
  "startswith_any ps s = list_ex (\<lambda>p. startswith s (asc p)) ps"

declare ascii_upper_def [py_defs] py_upper_def [py_defs] py_title_def [py_defs]
  char_islower_def [py_defs] char_isupper_def [py_defs] starts_lower_def [py_defs]
  starts_upper_def [py_defs] cap_first_def [py_defs] case_ascii_def [py_defs]
  py_split_def [py_defs] split_once_def [py_defs] before_sep_def [py_defs]
  py_words_def [py_defs] contains_any_def [py_defs] startswith_any_def [py_defs]

section \<open>More of the \<open>re\<close> module\<close>

text \<open>
  \<open>re.split(pattern, s)\<close> for a pattern without capturing groups, as the split patterns
  of the source are.  \<open>cur\<close> is the piece being read and \<open>skip\<close> counts the characters of
  the last match still to be passed over.  After an empty match the pattern is tried
  again at the same position for a non-empty match.
\<close>

fun split_scan ::
  "ucd \<Rightarrow> rflags \<Rightarrow> rx \<Rightarrow> ustr \<Rightarrow> nat \<Rightarrow> nat \<Rightarrow> nat option \<Rightarrow> ustr \<Rightarrow> ustr \<Rightarrow> ustr list" where
  "split_scan U f r s skip pos prev cur [] =
     (case rx_run U f s [IRx r] pos prev [] [] of
        None \<Rightarrow> [cur]
      | Some (e, cs) \<Rightarrow> [cur, []])"
| "split_scan U f r s skip pos prev cur (x # xs) =
     (if 0 < skip then split_scan U f r s (skip - 1) (Suc pos) (Some x) cur xs
      else case rx_run U f s [IRx r] pos prev (x # xs) [] of
             None \<Rightarrow> split_scan U f r s 0 (Suc pos) (Some x) (cur @ [x]) xs
           | Some (e, cs) \<Rightarrow>
               if e = pos
               then cur # (case rx_run U f s [IRx r, IMark pos] pos prev (x # xs) [] of
                             None \<Rightarrow> split_scan U f r s 0 (Suc pos) (Some x) [x] xs
                           | Some (e', cs') \<Rightarrow>
                               [] # split_scan U f r s (e' - pos - 1) (Suc pos) (Some x) [] xs)
               else cur # split_scan U f r s (e - pos - 1) (Suc pos) (Some x) [] xs)"

definition re_split :: "ucd \<Rightarrow> rflags \<Rightarrow> rx \<Rightarrow> ustr \<Rightarrow> ustr list" where
  "re_split U f r s = split_scan U f r s 0 0 None [] s"

text \<open>\<open>re.split(pattern, s, 1)[0]\<close>: the text before the first match.\<close>

definition re_split_first :: "ucd \<Rightarrow> rflags \<Rightarrow> rx \<Rightarrow> ustr \<Rightarrow> ustr" where
  "re_split_first U f r s =
     (case re_search U f r s of None \<Rightarrow> s | Some mo \<Rightarrow> take (m_start mo) s)"

text \<open>
  \<open>re.sub\<close> with a function for the replacement: \<open>g\<close> gives the replacement of a match.
\<close>

fun sub_scan_fn ::
  "ucd \<Rightarrow> rflags \<Rightarrow> rx \<Rightarrow> (mobj \<Rightarrow> ustr) \<Rightarrow> ustr \<Rightarrow> nat \<Rightarrow> nat \<Rightarrow> nat option \<Rightarrow> ustr \<Rightarrow> ustr" where
  "sub_scan_fn U f r g s skip pos prev [] =
     (if 0 < skip then []
      else case rx_run U f s [IRx r] pos prev [] [] of
             None \<Rightarrow> []
           | Some (e, cs) \<Rightarrow> g (pos, e, cs))"
| "sub_scan_fn U f r g s skip pos prev (x # xs) =
     (if 0 < skip then sub_scan_fn U f r g s (skip - 1) (Suc pos) (Some x) xs
      else case rx_run U f s [IRx r] pos prev (x # xs) [] of
             None \<Rightarrow> x # sub_scan_fn U f r g s 0 (Suc pos) (Some x) xs
           | Some (e, cs) \<Rightarrow>
               if e = pos
               then g (pos, e, cs) @
                    (case rx_run U f s [IRx r, IMark pos] pos prev (x # xs) [] of
                       None \<Rightarrow> x # sub_scan_fn U f r g s 0 (Suc pos) (Some x) xs
                     | Some (e', cs') \<Rightarrow>
                         g (pos, e', cs') @
                         sub_scan_fn U f r g s (e' - pos - 1) (Suc pos) (Some x) xs)
               else g (pos, e, cs) @
                    sub_scan_fn U f r g s (e - pos - 1) (Suc pos) (Some x) xs)"

definition re_sub_fn :: "ucd \<Rightarrow> rflags \<Rightarrow> rx \<Rightarrow> (mobj \<Rightarrow> ustr) \<Rightarrow> ustr \<Rightarrow> ustr" where
  "re_sub_fn U f r g s = sub_scan_fn U f r g s 0 0 None s"

text \<open>\<open>m.group(n)\<close> where the group took part in the match, the empty string otherwise.\<close>

definition group_or_empty :: "ustr \<Rightarrow> mobj \<Rightarrow> nat \<Rightarrow> ustr" where
  "group_or_empty s mo n = (case m_group s mo n of None \<Rightarrow> [] | Some g \<Rightarrow> g)"

text \<open>
  \<open>len(re.findall(pattern, s))\<close>: the matches are found as \<open>re.sub\<close> finds them, and
  counted.
\<close>

fun count_scan ::
  "ucd \<Rightarrow> rflags \<Rightarrow> rx \<Rightarrow> ustr \<Rightarrow> nat \<Rightarrow> nat \<Rightarrow> nat option \<Rightarrow> ustr \<Rightarrow> nat" where
  "count_scan U f r s skip pos prev [] =
     (if 0 < skip then 0
      else case rx_run U f s [IRx r] pos prev [] [] of None \<Rightarrow> 0 | Some (e, cs) \<Rightarrow> 1)"
| "count_scan U f r s skip pos prev (x # xs) =
     (if 0 < skip then count_scan U f r s (skip - 1) (Suc pos) (Some x) xs
      else case rx_run U f s [IRx r] pos prev (x # xs) [] of
             None \<Rightarrow> count_scan U f r s 0 (Suc pos) (Some x) xs
           | Some (e, cs) \<Rightarrow>
               if e = pos
               then Suc (case rx_run U f s [IRx r, IMark pos] pos prev (x # xs) [] of
                           None \<Rightarrow> count_scan U f r s 0 (Suc pos) (Some x) xs
                         | Some (e', cs') \<Rightarrow>
                             Suc (count_scan U f r s (e' - pos - 1) (Suc pos) (Some x) xs))
               else Suc (count_scan U f r s (e - pos - 1) (Suc pos) (Some x) xs))"

definition findall_count :: "ucd \<Rightarrow> rflags \<Rightarrow> rx \<Rightarrow> ustr \<Rightarrow> nat" where
  "findall_count U f r s = count_scan U f r s 0 0 None s"

declare re_split_def [py_defs] re_split_first_def [py_defs] re_sub_fn_def [py_defs]
  group_or_empty_def [py_defs] findall_count_def [py_defs]

section \<open>Segment values\<close>

text \<open>
  \<^verbatim>\<open>extract_segment_values(para_idx, section_type, max_paras)\<close> is a local function of
  \<^verbatim>\<open>extract_title\<close> (lines 1950 to 2635).  It reads the document \<open>doc\<close> of the enclosing
  call.  The pieces its patterns share:
\<close>

definition UPPER :: rx where "UPPER = RSet False [CRange 65 90]"
definition LOWER :: rx where "LOWER = RSet False [CRange 97 122]"
definition ws0 :: rx where "ws0 = star rspace"
definition ws1 :: rx where "ws1 = plus rspace"

text \<open>\<open>(?:w1|w2|...)\<close> for literal words.\<close>

definition words :: "string list \<Rightarrow> rx" where
  "words ws = ralt (map rstr ws)"

text \<open>\<open>intro([^.]*?)(?:\.|$)\<close>: the text after \<open>intro\<close> up to the next full stop.\<close>

definition list_after :: "rx \<Rightarrow> rx" where
  "list_after intro =
     rseq [intro, RGroup 1 (star_lazy (RSet True [CChar 46])), RAlt (RChar 46) REol]"

text \<open>\<open>,\s*(?:and\s+)?\<close>\<close>

definition comma_and :: rx where
  "comma_and = rseq [RChar 44, ws0, opt (rseq [rstr ''and'', ws1])]"

text \<open>\<open>\s+(?:w1|w2|...)\<close>\<close>

definition space_then :: "string list \<Rightarrow> rx" where
  "space_then ws = rseq [ws1, words ws]"

text \<open>\<open>re.sub(r'^(the|a|an)\s+', '', v, flags=re.I).strip()\<close>\<close>

definition drop_article :: "ucd \<Rightarrow> ustr \<Rightarrow> ustr" where
  "drop_article U v =
     py_strip (re_sub U IGNORECASE (rseq [RBol, RGroup 1 (words [''the'', ''a'', ''an'']), ws1]) [] v)"

text \<open>
  \<open>re.sub(r'\b(And|To|Of|In|For|With|The)\b', lambda m: m.group(1).lower(), v)\<close>
\<close>

definition lower_small_words :: "ucd \<Rightarrow> ustr \<Rightarrow> ustr" where
  "lower_small_words U v =
     re_sub_fn U NOFLAGS
       (rseq [RWordB, RGroup 1 (words [''And'', ''To'', ''Of'', ''In'', ''For'', ''With'', ''The'']), RWordB])
       (\<lambda>mo. py_lower U (group_or_empty v mo 1)) v"

text \<open>
  \<open>re.sub(r'\b(ECMO|ECLS|ARDS|MSU|ASCs|ELISA|CLIA|IHC|NGS)\b', lambda m: m.group(1).upper(),
  v, flags=re.I)\<close>
\<close>

definition upper_acronyms :: "ucd \<Rightarrow> ucd_case \<Rightarrow> ustr \<Rightarrow> ustr" where
  "upper_acronyms U C v =
     re_sub_fn U IGNORECASE
       (rseq [RWordB, RGroup 1 (words [''ECMO'', ''ECLS'', ''ARDS'', ''MSU'', ''ASCs'', ''ELISA'',
                                      ''CLIA'', ''IHC'', ''NGS'']), RWordB])
       (\<lambda>mo. py_upper C (group_or_empty v mo 1)) v"

text \<open>
  \<open>re.sub(r'([A-Z][a-z]+)-To-([A-Z][a-z]+)', r'\1-to-\2', v)\<close> and then the same with
  \<open>-to-\<close> in the pattern.
\<close>

definition hyphen_to :: "ucd \<Rightarrow> ustr \<Rightarrow> ustr" where
  "hyphen_to U v =
     re_sub U NOFLAGS
       (rseq [RGroup 1 (rseq [UPPER, plus LOWER]), rstr ''-to-'', RGroup 2 (rseq [UPPER, plus LOWER])])
       [TGroup 1, TLit (asc ''-to-''), TGroup 2]
       (re_sub U NOFLAGS
          (rseq [RGroup 1 (rseq [UPPER, plus LOWER]), rstr ''-To-'', RGroup 2 (rseq [UPPER, plus LOWER])])
          [TGroup 1, TLit (asc ''-to-''), TGroup 2] v)"

text \<open>The stripped, non-empty parts of \<open>re.split(r',\s*(?:and\s+)?', value_text)\<close>.\<close>

definition value_parts :: "ucd \<Rightarrow> ustr \<Rightarrow> ustr list" where
  "value_parts U value_text =
     filter (\<lambda>part. part \<noteq> []) (map py_strip (re_split U NOFLAGS comma_and value_text))"

text \<open>\<open>m.group(1).strip()\<close> of \<open>re.search(pattern, header_para, re.IGNORECASE)\<close>.\<close>

definition listed :: "ucd \<Rightarrow> rx \<Rightarrow> ustr \<Rightarrow> ustr option" where
  "listed U r header_para =
     map_option (\<lambda>mo. py_strip (group_or_empty header_para mo 1))
       (re_search U IGNORECASE r header_para)"

declare UPPER_def [py_defs] LOWER_def [py_defs] ws0_def [py_defs] ws1_def [py_defs]
  words_def [py_defs] list_after_def [py_defs] comma_and_def [py_defs] space_then_def [py_defs]
  drop_article_def [py_defs] lower_small_words_def [py_defs] upper_acronyms_def [py_defs]
  hyphen_to_def [py_defs] value_parts_def [py_defs] listed_def [py_defs]

subsection \<open>Values in the header paragraph\<close>

text \<open>
  Lines 1959 to 1975.  The header paragraph, or its text after the first line break
  when it is longer than 20 characters and starts with ``by''.
\<close>

definition header_text :: "ucd \<Rightarrow> ustr \<Rightarrow> ustr" where
  "header_text U header_para =
     (if 20 < length header_para
         \<and> re_match U NOFLAGS (rseq [RBol, rstr ''by'', ws1]) (py_lower U header_para) \<noteq> None
      then (case split_once [10] header_para of
              None \<Rightarrow> header_para
            | Some (first, description) \<Rightarrow> py_strip description)
      else header_para)"

definition header_patterns :: "string list" where
  "header_patterns =
     [''divided into'', ''finds usage in'', ''applications across'', ''find applications across'',
      ''available across'', ''spans'', ''includes'', ''comprises'', ''distributed across'',
      ''usage in'', ''encompassing'', ''remains'', ''represents'', ''leading'', ''category'',
      ''area'']"

text \<open>Pattern 1 (lines 2000 to 2015): ``encompassing X, Y, and Z''.\<close>

definition encompassing_value :: "ucd \<Rightarrow> ucd_case \<Rightarrow> ustr \<Rightarrow> ustr list" where
  "encompassing_value U C part =
     (let main_value = py_strip (re_split_first U NOFLAGS
            (space_then [''remain'', ''represent'', ''are'', ''account'', ''these'', ''treatments''])
            part)
      in if main_value \<noteq> [] \<and> 2 < length main_value then
           (let main_value = (if starts_lower C main_value then cap_first C main_value
                              else main_value)
            in if length main_value < 100
                  \<and> py_lower U main_value \<notin> set (map asc [''the'', ''market'', ''segment''])
               then (let main_value = drop_article U main_value
                     in if main_value \<noteq> [] then [main_value] else [])
               else [])
         else [])"

definition encompassing_values :: "ucd \<Rightarrow> ucd_case \<Rightarrow> ustr \<Rightarrow> ustr list" where
  "encompassing_values U C header_para =
     (case listed U (list_after (rseq [rstr ''encompassing'', ws1])) header_para of
        None \<Rightarrow> []
      | Some value_text \<Rightarrow> concat (map (encompassing_value U C) (value_parts U value_text)))"

text \<open>Pattern 1b (lines 2018 to 2048): ``divided into X, Y, and Z''.\<close>

definition divided_value :: "ucd \<Rightarrow> ucd_case \<Rightarrow> ustr \<Rightarrow> ustr list" where
  "divided_value U C part =
     (let main_value = py_strip (re_split_first U NOFLAGS
            (space_then [''together'', ''represent'', ''are'', ''is'', ''expected'', ''projected'',
                         ''because'', ''due'', ''gaining''])
            part)
      in if main_value \<noteq> [] \<and> 2 < length main_value then
           (let main_value =
                  (if starts_lower C main_value then
                     (let t = py_title C main_value;
                          t = (if \<not> contains (asc ''ecmo'') (py_lower U t)
                               then lower_small_words U t else t)
                      in if t \<noteq> [] then upper_acronyms U C (cap_first C t) else t)
                   else main_value)
            in if length main_value < 100
                  \<and> py_lower U main_value \<notin> set (map asc [''the'', ''market'', ''segment''])
               then (let main_value = drop_article U main_value
                     in if main_value \<noteq> [] then [main_value] else [])
               else [])
         else [])"

definition divided_values :: "ucd \<Rightarrow> ucd_case \<Rightarrow> ustr \<Rightarrow> ustr list" where
  "divided_values U C header_para =
     (case listed U (list_after (rseq [opt (rseq [rstr ''broadly'', ws1]), rstr ''divided into'', ws1]))
             header_para of
        None \<Rightarrow> []
      | Some value_text \<Rightarrow> concat (map (divided_value U C) (value_parts U value_text)))"

declare header_text_def [py_defs] header_patterns_def [py_defs] encompassing_value_def [py_defs]
  encompassing_values_def [py_defs] divided_value_def [py_defs] divided_values_def [py_defs]

text \<open>
  Pattern 2a (lines 2052 to 2065): the first capitalised phrase of a header with
  ``represents'' or ``remains''.
\<close>

definition first_value :: "ucd \<Rightarrow> ucd_case \<Rightarrow> ustr \<Rightarrow> ustr \<Rightarrow> ustr list" where
  "first_value U C header_lower header_para =
     (if contains (asc ''represents'') header_lower \<or> contains (asc ''remains'') header_lower then
        (case re_search U NOFLAGS
                (rseq [RBol, RGroup 1 (rseq [UPPER, plus LOWER, star (rseq [ws1, plus LOWER])])])
                header_para of
           None \<Rightarrow> []
         | Some mo \<Rightarrow>
             (let first_value = py_strip (group_or_empty header_para mo 1);
                  first_value = py_strip (re_split_first U NOFLAGS
                      (space_then [''represents'', ''remains'', ''is'', ''are'', ''account''])
                      first_value)
              in if first_value \<noteq> [] \<and> length first_value < 50
                    \<and> py_lower U first_value \<notin> set (map asc [''the'', ''by'', ''market''])
                 then [if starts_lower C first_value then py_title C first_value else first_value]
                 else []))
      else [])"

text \<open>Pattern 2b (lines 2069 to 2077): ``X, Y, and Z are the leading ...''.\<close>

definition leading_values :: "ucd \<Rightarrow> ucd_case \<Rightarrow> ustr \<Rightarrow> ustr list" where
  "leading_values U C header_para =
     (case listed U
             (rseq [RBol, RGroup 1 (plus_lazy (RSet True [CChar 46])), ws1, words [''are'', ''is''],
                    ws1, rstr ''the'', ws1, words [''leading'', ''dominant'']])
             header_para of
        None \<Rightarrow> []
      | Some value_text \<Rightarrow>
          filter (\<lambda>part. 3 < length part \<and> starts_upper C part \<and> length part < 80)
            (value_parts U value_text))"

text \<open>Pattern 2c (lines 2080 to 2130): ``finds usage in X, Y, and Z''.\<close>

definition usage_value :: "ucd \<Rightarrow> ucd_case \<Rightarrow> ustr \<Rightarrow> ustr list" where
  "usage_value U C part =
     (let main_value =
            (if 40 \<in> set part \<and> 41 \<in> set part then
               (case re_search U NOFLAGS (rseq [RChar 40, RGroup 1 (plus UPPER), RChar 41]) part of
                  None \<Rightarrow> py_strip (before_sep [40] part)
                | Some mo \<Rightarrow>
                    if 3 \<le> length (group_or_empty part mo 1) then part
                    else py_strip (before_sep [40] part))
             else part);
          main_value = py_strip (re_split_first U NOFLAGS
              (space_then [''is'', ''are'', ''projected'', ''expected'', ''account'', ''driven'', ''given''])
              main_value)
      in if main_value \<noteq> [] \<and> 3 < length main_value then
           (let main_value = (if starts_lower C main_value then py_title C main_value
                              else main_value);
                main_value =
                  (if 40 \<in> set main_value \<and> 41 \<in> set main_value then
                     (case re_search U NOFLAGS
                             (rseq [RChar 40, RGroup 1 (plus (RSet False [CRange 65 90, CRange 97 122])),
                                    RChar 41])
                             main_value of
                        None \<Rightarrow> main_value
                      | Some mo \<Rightarrow>
                          (let main_part = py_strip (before_sep [40] main_value);
                               abbrev = py_upper C (group_or_empty main_value mo 1);
                               main_part = hyphen_to U (lower_small_words U (py_title C main_part));
                               main_part = (if main_part \<noteq> [] then cap_first C main_part
                                            else main_part)
                           in main_part @ asc '' ('' @ abbrev @ asc '')''))
                   else main_value)
            in if length main_value < 100 then [main_value] else [])
         else [])"

definition usage_values :: "ucd \<Rightarrow> ucd_case \<Rightarrow> ustr \<Rightarrow> ustr list" where
  "usage_values U C header_para =
     (case listed U (list_after (rseq [rstr ''finds usage in'', ws1])) header_para of
        None \<Rightarrow> []
      | Some value_text \<Rightarrow> concat (map (usage_value U C) (value_parts U value_text)))"

text \<open>Pattern 2d (lines 2133 to 2147): ``applications across X, Y, and Z''.\<close>

definition apps_value :: "ucd \<Rightarrow> ucd_case \<Rightarrow> ustr \<Rightarrow> ustr list" where
  "apps_value U C part =
     (let main_value = py_strip (re_split_first U IGNORECASE
            (space_then [''lead'', ''dominat'', ''remain'', ''represent'', ''account'', ''continue'',
                         ''expand''])
            part)
      in if main_value \<noteq> [] \<and> length main_value < 100
         then [if starts_lower C main_value then py_title C main_value else main_value]
         else [])"

definition apps_values :: "ucd \<Rightarrow> ucd_case \<Rightarrow> ustr \<Rightarrow> ustr list" where
  "apps_values U C header_para =
     (case listed U
             (list_after (rseq [opt (rseq [rstr ''find'', opt (rstr ''s''), ws1]),
                                rstr ''applications'', ws1, rstr ''across'', ws1]))
             header_para of
        None \<Rightarrow> []
      | Some value_text \<Rightarrow>
          (let value_text = py_strip (re_sub U IGNORECASE
                 (rseq [RBol, opt (rseq [rstr ''a'', ws1, rstr ''wide'', ws1, rstr ''range'', ws1,
                                         rstr ''of'', ws1])])
                 [] value_text)
           in concat (map (apps_value U C) (value_parts U value_text))))"

text \<open>
  Pattern 2e (lines 2150 to 2168): ``available across a wide spectrum - X, Y, and Z'',
  the dash being U+2013 or a hyphen.
\<close>

definition avail_value :: "ucd \<Rightarrow> ustr \<Rightarrow> ustr list" where
  "avail_value U part =
     (let main_value = py_strip (re_split_first U IGNORECASE
            (rseq [space_then [''serve'', ''serves'', ''remain'', ''represent'', ''account'', ''are'',
                               ''is''], RWordB])
            part)
      in if main_value \<noteq> [] \<and> length main_value < 80 then [main_value] else [])"

definition wide_spectrum_dash :: rx where
  "wide_spectrum_dash =
     rseq [opt (rseq [rstr ''a'', ws1, rstr ''wide'', ws1, rstr ''spectrum'', ws0]),
           RSet False [CChar EN_DASH, CChar 45], ws0]"

definition avail_values :: "ucd \<Rightarrow> ustr \<Rightarrow> ustr list" where
  "avail_values U header_para =
     (case (case listed U
                   (list_after (rseq [rstr ''available'', ws1, rstr ''across'', ws1, wide_spectrum_dash]))
                   header_para of
              None \<Rightarrow> listed U (list_after (rseq [rstr ''available'', ws1, rstr ''across'', ws1]))
                        header_para
            | Some value_text \<Rightarrow> Some value_text) of
        None \<Rightarrow> []
      | Some value_text \<Rightarrow>
          (let value_text = py_strip (re_sub U IGNORECASE (rseq [RBol, wide_spectrum_dash]) []
                                        value_text)
           in concat (map (avail_value U) (value_parts U value_text))))"

text \<open>Pattern 3 (lines 2171 to 2193): ``spans X, Y, and Z''.\<close>

definition spans_value :: "ucd \<Rightarrow> ucd_case \<Rightarrow> ustr \<Rightarrow> ustr list" where
  "spans_value U C part =
     (let main_value = py_strip (re_split_first U NOFLAGS
            (space_then [''given'', ''dominate'', ''show'', ''large'', ''tertiary'']) part)
      in if main_value \<noteq> [] \<and> 3 < length main_value then
           (let main_value =
                  (if starts_lower C main_value then
                     (let t = hyphen_to U (lower_small_words U (py_title C main_value))
                      in if t \<noteq> [] then cap_first C t else t)
                   else main_value)
            in if length main_value < 100 then [main_value] else [])
         else [])"

definition spans_values :: "ucd \<Rightarrow> ucd_case \<Rightarrow> ustr \<Rightarrow> ustr list" where
  "spans_values U C header_para =
     (case listed U (list_after (rseq [opt (rseq [rstr ''adoption'', ws1]), rstr ''spans'', ws1]))
             header_para of
        None \<Rightarrow> []
      | Some value_text \<Rightarrow> concat (map (spans_value U C) (value_parts U value_text)))"

text \<open>
  Pattern 4a (lines 2196 to 2208): the region at the start of a header with
  ``represents''; it is added when it is not yet in \<open>values\<close>.
\<close>

definition region_value :: "ucd \<Rightarrow> ucd_case \<Rightarrow> ustr \<Rightarrow> ustr \<Rightarrow> ustr \<Rightarrow> ustr list \<Rightarrow> ustr list" where
  "region_value U C section_type header_lower header_para values =
     (if section_type = asc ''region'' \<and> contains (asc ''represents'') header_lower then
        (case re_search U NOFLAGS
                (rseq [RBol, RGroup 1 (rseq [UPPER, plus LOWER,
                                             star (rseq [ws1, UPPER, plus LOWER])])])
                header_para of
           None \<Rightarrow> []
         | Some mo \<Rightarrow>
             (let region_value = py_strip (group_or_empty header_para mo 1);
                  region_value = py_strip (re_split_first U NOFLAGS
                      (space_then [''represents'', ''is'', ''remains'', ''follows'', ''supported''])
                      region_value)
              in if region_value \<noteq> [] \<and> length region_value < 50
                    \<and> py_lower U region_value \<notin> set (map asc [''the'', ''by'', ''market''])
                 then (let region_value = (if starts_lower C region_value
                                           then py_title C region_value else region_value)
                       in if region_value \<notin> set values then [region_value] else [])
                 else []))
      else [])"

text \<open>Pattern 4 (lines 2211 to 2226): ``distributed across X, Y, and Z (LAMEA)''.\<close>

definition distributed_value :: "ucd \<Rightarrow> ucd_case \<Rightarrow> ustr \<Rightarrow> ustr list" where
  "distributed_value U C part =
     (let main_value = py_strip (re_sub U NOFLAGS
            (rseq [ws0, RChar 40, plus (RSet True [CChar 41]), RChar 41]) [] part)
      in if main_value \<noteq> [] \<and> 3 < length main_value then
           (let main_value = (if starts_lower C main_value then cap_first C main_value
                              else main_value)
            in if length main_value < 80 then [main_value] else [])
         else [])"

definition distributed_values :: "ucd \<Rightarrow> ucd_case \<Rightarrow> ustr \<Rightarrow> ustr list" where
  "distributed_values U C header_para =
     (case listed U (list_after (rseq [rstr ''distributed across'', ws1])) header_para of
        None \<Rightarrow> []
      | Some value_text \<Rightarrow>
          concat (map (distributed_value U C)
            (filter (\<lambda>part. part \<noteq> [])
              (map py_strip
                (re_split U NOFLAGS
                   (rseq [comma_and, RNegLook (rseq [ws0, RChar 40, plus UPPER, RChar 41])])
                   value_text)))))"

text \<open>
  The values of the header paragraph (lines 1979 to 2226), in the order the source
  appends them.
\<close>

definition header_values :: "ucd \<Rightarrow> ucd_case \<Rightarrow> ustr \<Rightarrow> ustr \<Rightarrow> ustr list" where
  "header_values U C section_type header_para =
     (let header_lower = py_lower U header_para in
      if contains_any header_patterns header_lower then
        (let values = encompassing_values U C header_para
                      @ divided_values U C header_para
                      @ first_value U C header_lower header_para
                      @ leading_values U C header_para
                      @ usage_values U C header_para
                      @ apps_values U C header_para
                      @ avail_values U header_para
                      @ spans_values U C header_para;
             values = values @ region_value U C section_type header_lower header_para values
         in values @ distributed_values U C header_para)
      else [])"

text \<open>
  Lines 2230 to 2242: a list of two or more values from the header of a treatment, phase
  or output power section is returned at once, without case-insensitive duplicates.
\<close>

fun dedupe :: "ucd \<Rightarrow> ustr list \<Rightarrow> ustr list \<Rightarrow> ustr list" where
  "dedupe U seen [] = []"
| "dedupe U seen (v # vs) =
     (let vv = py_strip v in
      if vv = [] then dedupe U seen vs
      else if py_lower U vv \<in> set seen then dedupe U seen vs
      else vv # dedupe U (py_lower U vv # seen) vs)"

definition header_list_found :: "ustr \<Rightarrow> ustr list \<Rightarrow> bool" where
  "header_list_found section_type values \<longleftrightarrow>
     values \<noteq> []
     \<and> section_type \<in> set (map asc [''treatment'', ''phase'', ''output_power''])
     \<and> 2 \<le> length values"

declare first_value_def [py_defs] leading_values_def [py_defs] usage_value_def [py_defs]
  usage_values_def [py_defs] apps_value_def [py_defs] apps_values_def [py_defs]
  avail_value_def [py_defs] wide_spectrum_dash_def [py_defs] avail_values_def [py_defs]
  spans_value_def [py_defs] spans_values_def [py_defs] region_value_def [py_defs]
  distributed_value_def [py_defs] distributed_values_def [py_defs] header_values_def [py_defs]
  header_list_found_def [py_defs]

subsection \<open>Values on the lines after the header\<close>

text \<open>
  \<open>re.split(r'\s+(?:remain|are|encompass|represent|account|drive|continue|include|comprise)',
  val, 1, flags=re.I)[0].strip()\<close> of the stripped \<open>val\<close>, kept when it has more than 3 and
  fewer than 80 characters and starts with a capital.
\<close>

definition list_value :: "ucd \<Rightarrow> ucd_case \<Rightarrow> ustr \<Rightarrow> ustr option" where
  "list_value U C val =
     (let val = py_strip (re_split_first U IGNORECASE
            (space_then [''remain'', ''are'', ''encompass'', ''represent'', ''account'', ''drive'',
                         ''continue'', ''include'', ''comprise''])
            (py_strip val))
      in if val \<noteq> [] \<and> 3 < length val \<and> starts_upper C val \<and> length val < 80
         then Some val else None)"

text \<open>\<open>if val not in values: values.append(val)\<close>\<close>

definition add_new :: "ustr \<Rightarrow> ustr list \<Rightarrow> ustr list" where
  "add_new val values = (if val \<in> set values then values else values @ [val])"

text \<open>
  Lines 2251 to 2272: the lines of the header paragraph after the first, when they list
  values between commas.
\<close>

definition header_line_values :: "ucd \<Rightarrow> ucd_case \<Rightarrow> ustr \<Rightarrow> ustr list \<Rightarrow> ustr list" where
  "header_line_values U C header_para values =
     (if header_para \<noteq> [] \<and> 10 \<in> set header_para then
        foldl (\<lambda>values line.
                 let line = py_strip line in
                 if line \<noteq> [] \<and> 10 < length line \<and> 44 \<in> set line then
                   foldl (\<lambda>values val.
                            case list_value U C val of
                              None \<Rightarrow> values
                            | Some val \<Rightarrow>
                                add_new (if starts_lower C val then cap_first C val else val) values)
                     values (re_split U NOFLAGS comma_and line)
                 else values)
          values (tl (py_split [10] header_para))
      else values)"

subsection \<open>Values in the paragraphs after the header\<close>

definition exclude_phrases :: "string list" where
  "exclude_phrases = [''market analysis'', ''market share'', ''this segment'', ''this area'',
                      ''this region'', ''key stakeholders'', ''projected share'']"

definition region_names :: "string list" where
  "region_names = [''north america'', ''europe'', ''asia-pacific'', ''latin america'',
                   ''middle east'', ''africa'', ''asia pacific'', ''lamea'']"

text \<open>
  Lines 2292 to 2308: a first line with commas that starts with a list of capitalised
  names,
  \<open>^([A-Z][^,]+(?:,\s*[A-Z][^,]+){0,5}(?:,\s*and\s+[A-Z][^,]+)?)\<close>.
\<close>

definition NOT_COMMA :: rx where "NOT_COMMA = RSet True [CChar 44]"

definition name_list :: rx where
  "name_list =
     rseq [RBol,
           RGroup 1 (rseq [UPPER, plus NOT_COMMA,
                           RRep 0 (Some 5) True (rseq [RChar 44, ws0, UPPER, plus NOT_COMMA]),
                           opt (rseq [RChar 44, ws0, rstr ''and'', ws1, UPPER, plus NOT_COMMA])])]"

definition comma_list_values :: "ucd \<Rightarrow> ucd_case \<Rightarrow> ustr \<Rightarrow> ustr list \<Rightarrow> ustr list" where
  "comma_list_values U C first_line values =
     (if 44 \<in> set first_line \<and> length first_line < 200 then
        (case re_match U NOFLAGS name_list first_line of
           None \<Rightarrow> values
         | Some mo \<Rightarrow>
             (let value_text = py_strip (group_or_empty first_line mo 1);
                  value_text = re_sub U NOFLAGS
                      (rseq [RChar 44, ws0, rstr ''and'', ws1, RGroup 1 (rseq [UPPER, plus NOT_COMMA])])
                      [TLit (asc '', ''), TGroup 1] value_text
              in foldl (\<lambda>values val.
                          case list_value U C val of
                            None \<Rightarrow> values
                          | Some val \<Rightarrow> add_new val values)
                   values (re_split U NOFLAGS (rseq [RChar 44, ws0]) value_text)))
      else values)"

text \<open>
  The heading patterns.  \<open>HEAD_CHAR\<close> is \<open>[a-zA-Z0-9\s&\-]\<close>, \<open>COLON_CHAR\<close> is
  \<open>[a-zA-Z0-9\s&]\<close>; the group in brackets is \<open>(?:\([A-Za-z0-9\s,\-]+\))?\<close>, without the
  hyphen in the pattern that ends with a colon.
\<close>

definition HEAD_CHAR :: rx where
  "HEAD_CHAR = RSet False [CRange 97 122, CRange 65 90, CRange 48 57, CSpace, CChar 38, CChar 45]"

definition COLON_CHAR :: rx where
  "COLON_CHAR = RSet False [CRange 97 122, CRange 65 90, CRange 48 57, CSpace, CChar 38]"

definition bracket_hyphen :: rx where
  "bracket_hyphen =
     opt (rseq [RChar 40,
                plus (RSet False [CRange 65 90, CRange 97 122, CRange 48 57, CSpace, CChar 44,
                                  CChar 45]),
                RChar 41])"

definition bracket_plain :: rx where
  "bracket_plain =
     opt (rseq [RChar 40,
                plus (RSet False [CRange 65 90, CRange 97 122, CRange 48 57, CSpace, CChar 44]),
                RChar 41])"

text \<open>\<open>^[A-Z][a-zA-Z0-9\s&\-]+(?:\([A-Za-z0-9\s,\-]+\))?\<close>\<close>

definition capital_heading :: rx where
  "capital_heading = rseq [RBol, UPPER, plus HEAD_CHAR, bracket_hyphen]"

text \<open>\<open>^([A-Z][a-zA-Z0-9\s&]+(?:\([A-Za-z0-9\s,]+\))?)\s*[:]\<close>\<close>

definition colon_heading :: rx where
  "colon_heading =
     rseq [RBol, RGroup 1 (rseq [UPPER, plus COLON_CHAR, bracket_plain]), ws0,
           RSet False [CChar 58]]"

text \<open>
  Lines 2334 to 2343: the content in brackets is removed unless it is two or more
  capitals, then a leading ``The'', ``This'', ``These'' or ``That'' is removed.
\<close>

definition BRACKETS :: rx where
  "BRACKETS = rseq [ws0, RChar 40, plus (RSet True [CChar 41]), RChar 41]"

definition drop_parens :: "ucd \<Rightarrow> ustr \<Rightarrow> ustr" where
  "drop_parens U v =
     (if 40 \<in> set v \<and> 41 \<in> set v then
        (case re_search U NOFLAGS
                (rseq [RChar 40, RGroup 1 (plus (RSet True [CChar 41])), RChar 41]) v of
           None \<Rightarrow> v
         | Some mo \<Rightarrow>
             if re_match U NOFLAGS (rseq [RBol, RRep 2 None True UPPER, REol])
                  (py_strip (group_or_empty v mo 1)) = None
             then py_strip (re_sub U NOFLAGS BRACKETS [] v)
             else v)
      else v)"

definition drop_the :: "ucd \<Rightarrow> ustr \<Rightarrow> ustr" where
  "drop_the U v =
     py_strip (re_sub U IGNORECASE
       (rseq [RBol, RGroup 1 (words [''The'', ''This'', ''These'', ''That'']), ws1]) [] v)"

text \<open>\<open>value.replace(' and ', ' & ')\<close> outside the region section.\<close>

definition ampersand :: "ustr \<Rightarrow> ustr \<Rightarrow> ustr" where
  "ampersand section_type v =
     (if contains (asc '' and '') v \<and> section_type \<noteq> asc ''region''
      then py_replace (asc '' and '') (asc '' & '') v else v)"

text \<open>Lines 2330 to 2389: a paragraph that starts with a name and a colon.\<close>

definition colon_value :: "ucd \<Rightarrow> ustr \<Rightarrow> ustr \<Rightarrow> ustr list \<Rightarrow> ustr list" where
  "colon_value U section_type v0 values =
     (let v = drop_the U (drop_parens U (py_strip v0));
          value_lower = py_lower U v;
          is_region_name = contains_any region_names value_lower
      in if is_region_name \<and> section_type \<noteq> asc ''region'' then values
         else if section_type = asc ''region'' \<and> \<not> is_region_name
                 \<and> (40 < length v
                     \<or> contains_any [''influence'', ''market size'', ''volume'', ''diagnostics'',
                                      ''methodology'', ''process'', ''research'', ''data sources'']
                          value_lower)
           then values
         else if length v < 70
                 \<and> \<not> startswith_any [''by '', ''the '', ''this '', ''these '', ''aml '', ''market'',
                                       ''key '', ''the global'', ''other '', ''projected '']
                        value_lower
                 \<and> length (py_words v) \<le> 10
                 \<and> v \<notin> set values
                 \<and> \<not> contains (asc ''market analysis'') value_lower
                 \<and> \<not> contains (asc ''market share'') value_lower
                 \<and> \<not> contains (asc ''projected share'') value_lower
                 \<and> \<not> contains (asc ''the market'') value_lower
                 \<and> \<not> contains (asc ''the end users'') value_lower
                 \<and> \<not> contains (asc ''end-user'') value_lower
                 \<and> \<not> startswith value_lower (asc ''oem'')
                 \<and> \<not> startswith value_lower (asc ''rest of'')
           then (if startswith value_lower (asc ''diagnostic'')
                 then (if contains (asc ''laborator'') value_lower
                          \<or> contains (asc ''service'') value_lower
                          \<or> contains (asc ''center'') value_lower
                       then values @ [v] else values)
                 else values @ [ampersand section_type v])
         else values)"

text \<open>
  Lines 2394 to 2435: for a paragraph of more than 50 characters without such a start,
  the same pattern on its first 100 characters.
\<close>

definition alt_value :: "ucd \<Rightarrow> ustr \<Rightarrow> ustr \<Rightarrow> ustr \<Rightarrow> ustr list \<Rightarrow> ustr list" where
  "alt_value U section_type text text_lower values =
     (if 50 < length text then
        (case re_search U NOFLAGS colon_heading (take 100 text) of
           None \<Rightarrow> values
         | Some mo \<Rightarrow>
             if contains_any [''is employed'', ''are used'', ''is used'', ''are employed'',
                              ''focuses on'', ''targeting'', ''including'', ''such as''] text_lower
             then values
             else
               (let v = drop_the U (drop_parens U (py_strip (group_or_empty (take 100 text) mo 1)));
                    value_lower = py_lower U v
                in if contains_any region_names value_lower \<and> section_type \<noteq> asc ''region''
                   then values
                   else if length v < 70
                           \<and> \<not> startswith_any [''by '', ''the '', ''this '', ''these '', ''market'',
                                                 ''key '', ''other '', ''rest of'', ''projected '']
                                  value_lower
                           \<and> length (py_words v) \<le> 10
                           \<and> v \<notin> set values
                           \<and> \<not> contains (asc ''market analysis'') value_lower
                           \<and> \<not> contains (asc ''market share'') value_lower
                           \<and> \<not> contains (asc ''projected share'') value_lower
                     then values @ [ampersand section_type v]
                   else values))
      else values)"

declare list_value_def [py_defs] add_new_def [py_defs] header_line_values_def [py_defs]
  exclude_phrases_def [py_defs] region_names_def [py_defs] NOT_COMMA_def [py_defs]
  name_list_def [py_defs] comma_list_values_def [py_defs] HEAD_CHAR_def [py_defs]
  COLON_CHAR_def [py_defs] bracket_hyphen_def [py_defs] bracket_plain_def [py_defs]
  capital_heading_def [py_defs] colon_heading_def [py_defs] BRACKETS_def [py_defs]
  drop_parens_def [py_defs] drop_the_def [py_defs] ampersand_def [py_defs]
  colon_value_def [py_defs] alt_value_def [py_defs]

text \<open>
  Lines 2445 to 2467: the heading at the start of a paragraph that has no name with a
  colon.  The whole paragraph when it matches
  \<open>^[A-Z][a-zA-Z0-9\s&\-]+(?:\([A-Za-z0-9\s,\-]+\))?$\<close>, else the match of
  \<open>^([A-Z][A-Za-z0-9\s&\-]+(?:\([A-Za-z0-9\s,\-]+\))?)\<close> when nothing follows it, or
  what follows starts in lower case, or the match is short.
\<close>

definition heading_of :: "ucd \<Rightarrow> ucd_case \<Rightarrow> ustr \<Rightarrow> ustr option" where
  "heading_of U C text =
     (if re_match U NOFLAGS (rseq [capital_heading, REol]) (py_strip text) \<noteq> None
      then Some (py_strip text)
      else case re_match U NOFLAGS
                  (rseq [RBol, RGroup 1 (rseq [UPPER, plus HEAD_CHAR, bracket_hyphen])]) text of
             None \<Rightarrow> None
           | Some mo \<Rightarrow>
               (let potential_heading = py_strip (group_or_empty text mo 1);
                    remaining = py_strip (drop (length potential_heading) text)
                in if remaining = [] then Some potential_heading
                   else if starts_lower C remaining then Some potential_heading
                   else if length (py_words potential_heading) \<le> 8 \<and> length potential_heading \<le> 80
                     then Some potential_heading
                   else None))"

text \<open>Lines 2469 to 2525: the heading as a value.\<close>

definition heading_value :: "ucd \<Rightarrow> ucd_case \<Rightarrow> ustr \<Rightarrow> ustr \<Rightarrow> ustr list \<Rightarrow> ustr list" where
  "heading_value U C section_type text values =
     (case heading_of U C text of
        None \<Rightarrow> values
      | Some potential_value \<Rightarrow>
          if potential_value = [] then values
          else
            (let value_lower = py_lower U potential_value in
             if length potential_value \<le> 80
                \<and> length (py_words potential_value) \<le> 8
                \<and> re_match U NOFLAGS
                     (rseq [RBol, plus rdigit, RSet False [CChar 46, CChar 41], ws0])
                     potential_value = None
                \<and> \<not> startswith_any [''by '', ''the '', ''this '', ''these '', ''market'', ''key '',
                                      ''projected '', ''products such'', ''the g-csf market'']
                       value_lower
                \<and> \<not> contains (asc ''market analysis'') value_lower
                \<and> \<not> contains (asc ''market share'') value_lower
                \<and> \<not> contains (asc ''projected share'') value_lower
                \<and> potential_value \<notin> set values
             then
               (if contains_any region_names value_lower \<and> section_type \<noteq> asc ''region''
                then values
                else
                  (let v = drop_the U potential_value;
                       value_lower = py_lower U v
                   in if contains_any [''is employed'', ''are used'', ''is used'', ''are employed'',
                                       ''focuses on'', ''targeting'', ''including'', ''such as'',
                                       ''helps in'', ''provides'', ''across various'',
                                       ''each targeting'', ''each with''] value_lower
                      then values
                      else if contains_any [''increased'', ''access to'', ''growth rate'',
                                            ''expected to'', ''impact'', ''trend'', ''outlook'',
                                            ''driven by'', ''the largest'', ''the dominant'',
                                            ''patients with'', ''g-csf is'', ''targeted'',
                                            ''treatments'', ''improve patient'', ''outcomes'',
                                            ''healthcare'', ''infrastructure''] value_lower
                        then values
                      else if length (py_words v) = 1
                              \<and> value_lower \<in> set (map asc [''impact'', ''trend'', ''outlook'',
                                                              ''growth'', ''share'', ''market'',
                                                              ''targeted''])
                        then values
                      else if 60 < length v then
                        (if contains_any [''to'', ''for'', ''with''] value_lower
                            \<and> (contains (asc ''across'') value_lower
                                \<or> contains (asc ''various'') value_lower
                                \<or> contains (asc ''each'') value_lower)
                         then values
                         else if 8 < length (py_words v) then values
                         else if starts_lower C v then values
                         else if contains_any [''the primary'', ''this segment'', ''this application'']
                                   value_lower
                           then values
                         else if 3 \<le> length v \<and> length v \<le> 80 then values @ [v]
                         else values)
                      else if 3 \<le> length v \<and> length v \<le> 80 then values @ [v]
                      else values))
             else values))"

text \<open>
  The values of one paragraph (lines 2329 to 2525): its name before a colon, or else
  the values of its first 100 characters and of its heading.
\<close>

definition paragraph_values :: "ucd \<Rightarrow> ucd_case \<Rightarrow> ustr \<Rightarrow> ustr \<Rightarrow> ustr list \<Rightarrow> ustr list" where
  "paragraph_values U C section_type text values =
     (case re_match U NOFLAGS colon_heading text of
        Some mo \<Rightarrow> colon_value U section_type (group_or_empty text mo 1) values
      | None \<Rightarrow>
          heading_value U C section_type text
            (alt_value U section_type text (py_lower U text) values))"

text \<open>
  The loop over the paragraphs after the header (lines 2274 to 2525); it stops at a
  paragraph that starts with ``By''.  \<open>skip_intro\<close> is true until the first paragraph
  that is neither empty, nor shorter than 3 characters.
\<close>

fun mine_paragraphs ::
  "ucd \<Rightarrow> ucd_case \<Rightarrow> ustr \<Rightarrow> ustr list \<Rightarrow> bool \<Rightarrow> ustr list \<Rightarrow> ustr list" where
  "mine_paragraphs U C section_type [] skip_intro values = values"
| "mine_paragraphs U C section_type (p # ps) skip_intro values =
     (if py_strip p = [] then mine_paragraphs U C section_type ps skip_intro values
      else if re_match U IGNORECASE (rseq [RBol, rstr ''By'', ws1]) (py_strip p) \<noteq> None
        then values
      else if length (py_strip p) < 3 then mine_paragraphs U C section_type ps skip_intro values
      else
        mine_paragraphs U C section_type ps False
          (let first_line = (if 10 \<in> set (py_strip p)
                             then py_strip (hd (py_split [10] (py_strip p))) else py_strip p);
               values = comma_list_values U C first_line values;
               text = first_line
           in if skip_intro \<and> 100 < length text
                 \<and> re_match U NOFLAGS capital_heading text = None
              then values
              else if startswith_any exclude_phrases (py_lower U text) then values
              else paragraph_values U C section_type text values))"

subsection \<open>The region section\<close>

definition region_keywords :: "string list" where
  "region_keywords = [''north america'', ''south america'', ''europe'', ''asia'', ''pacific'',
                      ''latin america'', ''middle east'', ''africa'', ''lamea'', ''apac'', ''emea'',
                      ''america'', ''oceania'']"

definition invalid_region_terms :: "string list" where
  "invalid_region_terms = [''influence'', ''market size'', ''volume'', ''diagnostics'',
                           ''methodology'', ''process'', ''research'', ''data sources'',
                           ''government'', ''regulatory'', ''historical'', ''overview'', ''emerging'',
                           ''technological'', ''stakeholders'']"

text \<open>
  Lines 2528 to 2558: the values that name a region are kept, if there are any, and a
  ``Rest of ...'' or LAMEA value is written out when a paragraph near the header names
  Latin America, the Middle East and Africa.
\<close>

definition region_cleanup ::
  "ucd \<Rightarrow> document \<Rightarrow> nat \<Rightarrow> nat \<Rightarrow> ustr list \<Rightarrow> ustr list" where
  "region_cleanup U doc para_idx max_paras values =
     (let valid_regions =
            filter (\<lambda>val. contains_any (region_names @ region_keywords) (py_lower U val)
                          \<and> \<not> contains_any invalid_region_terms (py_lower U val)) values;
          values = (if valid_regions \<noteq> [] then valid_regions else values);
          expanded = list_ex (\<lambda>para. contains (asc ''latin america'') (py_lower U (p_text para))
                                    \<and> contains (asc ''middle east'') (py_lower U (p_text para))
                                    \<and> contains (asc ''africa'') (py_lower U (p_text para)))
                       (take (max_paras + 5) (drop para_idx (d_paragraphs doc)))
      in map (\<lambda>val. if (contains (asc ''rest of'') (py_lower U val)
                         \<or> contains (asc ''lamea'') (py_lower U val)) \<and> expanded
                     then asc ''Latin America, Middle East & Africa'' else val) values)"

subsection \<open>The final clean-up\<close>

definition sentence_verbs :: "string list" where
  "sentence_verbs = [''is employed'', ''are used'', ''is used'', ''are employed'', ''focuses on'',
                     ''targeting'', ''including'', ''such as'', ''helps in'', ''provides'',
                     ''allows'', ''enables'', ''ensures'', ''aims to'', ''seeks to'', ''designed to'',
                     ''used to'', ''intended to'']"

definition invalid_words :: "string list" where
  "invalid_words = [''impact'', ''trend'', ''outlook'', ''growth'', ''share'', ''targeted'']"

definition invalid_phrases :: "string list" where
  "invalid_phrases =
     [''increased'', ''access to'', ''growth rate'', ''expected to'', ''driven by'',
      ''the largest'', ''improve patient'', ''treatments to'', ''outcomes'',
      ''healthcare infrastructure'', ''reflects'', ''differences in'',
      ''definition and scope'', ''overview of'', ''research methodology'', ''research process'',
      ''primary and secondary'', ''data sources'', ''emerging opportunities'',
      ''technological advances'', ''across various'', ''each targeting'', ''each with'',
      ''vary widely'', ''government and regulatory'', ''historical market'',
      ''market size and volume'', ''this is the most'', ''this is the critical'',
      ''dimension of segmentation'', ''in 2024,'', ''in 2024 '', ''the most critical dimension'']"

definition desc_phrases :: "string list" where
  "desc_phrases = [''the primary'', ''this segment'', ''this sub-segment'', ''this application'',
                   ''the end users'', ''the market'', ''the largest'', ''the dominant'',
                   ''this is the'', ''the most critical'']"

text \<open>
  Line 2577: \<open>val.split("(e.g.")[0].strip().split("(e.g.,")[0].strip()\<close> for a value with
  ``(e.g.''.
\<close>

definition short_form :: "ustr \<Rightarrow> ustr" where
  "short_form val =
     (if contains (asc ''(e.g.'') val \<or> contains (asc ''(e.g.,'') val
      then py_strip (before_sep (asc ''(e.g.,'') (py_strip (before_sep (asc ''(e.g.'') val)))
      else val)"

text \<open>
  Lines 2613 to 2619: a value of more than 60 characters in which more than two of the
  listed prepositions are words.
\<close>

definition wordy :: "ucd \<Rightarrow> ustr \<Rightarrow> bool" where
  "wordy U val \<longleftrightarrow>
     60 < length val
     \<and> contains_any [''to'', ''for'', ''with'', ''and'', ''of'', ''in'', ''at'', ''on'', ''by'']
          (py_lower U val)
     \<and> 2 < length (filter (\<lambda>word. asc word \<in> set (py_words (py_lower U val)))
                     [''to'', ''for'', ''with'', ''of'', ''in'', ''at'', ''on'', ''by''])"

text \<open>The test of the loop at lines 2574 to 2633 on a value in its short form.\<close>

definition keeps :: "ucd \<Rightarrow> ucd_case \<Rightarrow> ustr \<Rightarrow> ustr \<Rightarrow> bool" where
  "keeps U C section_type val \<longleftrightarrow>
     val \<noteq> []
     \<and> (if section_type = asc ''region''
        then contains_any region_keywords (py_lower U val)
             \<and> \<not> contains_any invalid_region_terms (py_lower U val)
        else True)
     \<and> \<not> contains_any sentence_verbs (py_lower U val)
     \<and> py_lower U val \<notin> set (map asc invalid_words)
     \<and> \<not> contains_any invalid_phrases (py_lower U val)
     \<and> \<not> wordy U val
     \<and> \<not> starts_lower C val
     \<and> \<not> contains_any desc_phrases (py_lower U val)"

definition final_values :: "ucd \<Rightarrow> ucd_case \<Rightarrow> ustr \<Rightarrow> ustr list \<Rightarrow> ustr list" where
  "final_values U C section_type values =
     filter (keeps U C section_type) (map short_form values)"

subsection \<open>The function\<close>

text \<open>
  \<open>doc.paragraphs[para_idx]\<close> raises \<open>IndexError\<close> when there is no such paragraph.  The
  test at line 1960 is on the header paragraph as it stands in the document, the one at
  line 2251 on the text the first block may have put in its place.  \<open>header_list\<close> is
  \<open>values\<close> when line 2230 is reached, or when the block it is in is passed over.
\<close>

definition header_list :: "ucd \<Rightarrow> ucd_case \<Rightarrow> document \<Rightarrow> nat \<Rightarrow> ustr \<Rightarrow> ustr list" where
  "header_list U C doc para_idx section_type =
     (let header_para = py_strip (p_text (d_paragraphs doc ! para_idx))
      in if 20 < length header_para
         then header_values U C section_type (header_text U header_para) else [])"

definition extract_segment_values ::
  "ucd \<Rightarrow> ucd_case \<Rightarrow> document \<Rightarrow> nat \<Rightarrow> ustr \<Rightarrow> nat \<Rightarrow> py_error + ustr list" where
  "extract_segment_values U C doc para_idx section_type max_paras =
     (if length (d_paragraphs doc) \<le> para_idx then Inl IndexError
      else
        (let header_para = py_strip (p_text (d_paragraphs doc ! para_idx));
             values = header_list U C doc para_idx section_type
         in if header_list_found section_type values then Inr (take 8 (dedupe U [] values))
            else
              (let values = header_line_values U C (header_text U header_para) values;
                   values = mine_paragraphs U C section_type
                              (map p_text (take max_paras (drop (para_idx + 1) (d_paragraphs doc))))
                              True values;
                   values = (if section_type = asc ''region'' \<and> values \<noteq> []
                             then region_cleanup U doc para_idx max_paras values else values)
               in Inr (take 8 (final_values U C section_type values)))))"

declare heading_of_def [py_defs] heading_value_def [py_defs] paragraph_values_def [py_defs]
  region_keywords_def [py_defs] invalid_region_terms_def [py_defs] region_cleanup_def [py_defs]
  sentence_verbs_def [py_defs] invalid_words_def [py_defs] invalid_phrases_def [py_defs]
  desc_phrases_def [py_defs] short_form_def [py_defs] wordy_def [py_defs] keeps_def [py_defs]
  final_values_def [py_defs] header_list_def [py_defs] extract_segment_values_def [py_defs]

subsection \<open>What the returned list satisfies\<close>






subsection \<open>Worked documents\<close>












end
